theory Spec2Isabelle
  imports Complex_Main "HOL-Library.AList"
begin

section \<open>BIOTICA: the IBR composite engine and the tipping-point detector\<close>

text \<open>
  Python floats are modelled as \<^typ>\<open>real\<close>: the weighted sums, thresholds and
  comparisons below are the exact-arithmetic reading of the source. A dictionary whose
  iteration order is visible in the result is an association list in insertion order.
\<close>

subsection \<open>\<open>biotica/equations_fixed.py\<close>: \<open>BIOTICACore\<close>\<close>

datatype IBRClass = PRISTINE | FUNCTIONAL | IMPAIRED | DEGRADED | COLLAPSED

definition IBR_WEIGHTS :: "(string \<times> real) list" where
  "IBR_WEIGHTS =
     [(''VCA'', 0.20), (''MDI'', 0.15), (''PTS'', 0.12),
      (''HFI'', 0.11), (''BNC'', 0.10), (''SGH'', 0.09),
      (''AES'', 0.08), (''TMI'', 0.08), (''RRC'', 0.07)]"

text \<open>
  The \<open>if\<close>/\<open>elif\<close> chain of \<open>compute_ibr\<close> (lines 61 to 70), first match wins.
\<close>

definition classify_score :: "real \<Rightarrow> IBRClass" where
  "classify_score normalized =
     (if normalized > 0.88 then PRISTINE
      else if normalized > 0.75 then FUNCTIONAL
      else if normalized > 0.60 then IMPAIRED
      else if normalized > 0.45 then DEGRADED
      else COLLAPSED)"

record ibr_dict =
  score :: real
  normalized_score :: real
  classification :: IBRClass
  contributions :: "(string \<times> real) list"
  uncertainty :: real
  confidence :: real

text \<open>
  The loop \<open>for param, weight in self.IBR_WEIGHTS.items()\<close> of \<open>compute_ibr\<close>, threading
  \<open>(raw_score, total_weight, contributions)\<close>.
\<close>

fun ibr_loop ::
  "(string \<rightharpoonup> real) \<Rightarrow> (string \<times> real) list \<Rightarrow> real \<times> real \<times> (string \<times> real) list
     \<Rightarrow> real \<times> real \<times> (string \<times> real) list" where
  "ibr_loop ps [] acc = acc"
| "ibr_loop ps ((param, weight) # rest) (raw_score, total_weight, contribs) =
     (case ps param of
        None \<Rightarrow> ibr_loop ps rest (raw_score, total_weight, contribs)
      | Some v \<Rightarrow>
          (let contrib = v * weight
           in ibr_loop ps rest
                (raw_score + contrib, total_weight + weight,
                 AList.update param contrib contribs)))"

definition compute_ibr :: "(string \<rightharpoonup> real) \<Rightarrow> ibr_dict" where
  "compute_ibr ps =
     (case ibr_loop ps IBR_WEIGHTS (0, 0, []) of
        (raw_score, total_weight, contribs) \<Rightarrow>
          (let normalized = (if total_weight > 0 then raw_score / total_weight else 0)
           in \<lparr> score = raw_score,
                normalized_score = normalized,
                classification = classify_score normalized,
                contributions = contribs,
                uncertainty = 0.05,
                confidence = 0.95 \<rparr>))"

subsection \<open>\<open>biotica/ibr/composite.py\<close>: \<open>IBRComposite\<close>\<close>

text \<open>
  \<open>self.parameters\<close> is a dictionary from a name to \<open>{'value': .., 'uncertainty': ..}\<close>;
  \<open>compute\<close> reads the uncertainty with \<open>data.get('uncertainty', 0.05)\<close>, so the key
  may be absent. The creation timestamp of a result (\<open>datetime.now\<close>) is left out.
\<close>

record param_entry =
  pvalue :: real
  puncertainty :: "real option"

record ParameterResult =
  pr_value :: real
  pr_uncertainty :: real
  pr_confidence :: real

record IBRComposite =
  plot_id :: "string option"
  biome :: "string option"
  parameters :: "(string \<times> param_entry) list"

datatype warning =
    MissingParameters "string list"
  | ExtraParameters "string list"
  | OutOfRange string real
  | CriticalLow string real
  | UnusuallyHigh string real
  | CollapsedState
  | DegradedState

datatype error =
    ValueError_not_in_unit_interval string real
  | ValueError_validation_failed "warning list"

record result_metadata =
  n_parameters :: nat
  validation_passed :: bool
  method_name :: string

record IBRResult =
  r_score :: real
  r_classification :: IBRClass
  r_contributions :: "(string \<times> real) list"
  r_uncertainty :: real
  r_confidence :: real
  r_plot_id :: "string option"
  r_biome :: "string option"
  r_warnings :: "warning list"
  r_metadata :: result_metadata

text \<open>
  What the engine takes from outside this file: \<open>BIOTICACore._classify_ibr\<close> (see
  \<open>classify_ibr_spec\<close> below) and Python's two float formats, \<open>str(x)\<close> and
  \<open>format(x, '.3f')\<close>, which only appear inside warning texts.
\<close>

record core_env =
  classify_ibr :: "real \<Rightarrow> IBRClass"
  float_str :: "real \<Rightarrow> string"
  float_3f :: "real \<Rightarrow> string"

text \<open>
  Modelled from the spec: \<open>BIOTICACore._classify_ibr\<close>, which \<open>IBRComposite.compute\<close>
  calls, is defined in \<open>biotica/equations.py\<close>; that module is not among the sources.
  The specification's threshold table (section 4.1) is the chain of \<open>compute_ibr\<close>, and
  \<open>tests/unit/test_equations.py\<close> expects \<open>_classify_ibr\<close> to follow it
  (0.92, 0.80, 0.68, 0.52, 0.35).
\<close>

definition classify_ibr_spec :: "real \<Rightarrow> IBRClass" where
  "classify_ibr_spec s = classify_score s"

subsubsection \<open>Warning texts and the \<open>'Missing' in w\<close> test\<close>

fun join_with :: "string \<Rightarrow> string list \<Rightarrow> string" where
  "join_with sep [] = []"
| "join_with sep [x] = x"
| "join_with sep (x # y # ys) = x @ sep @ join_with sep (y # ys)"

definition render :: "core_env \<Rightarrow> warning \<Rightarrow> string" where
  "render env w =
     (case w of
        MissingParameters names \<Rightarrow> ''Missing parameters: '' @ join_with '', '' names
      | ExtraParameters names \<Rightarrow>
          ''Extra parameters (will be ignored): '' @ join_with '', '' names
      | OutOfRange name v \<Rightarrow>
          ''Parameter '' @ name @ '' value '' @ float_str env v @ '' out of range''
      | CriticalLow name v \<Rightarrow> ''Critical low value for '' @ name @ '': '' @ float_3f env v
      | UnusuallyHigh name v \<Rightarrow>
          ''Unusually high value for '' @ name @ '': '' @ float_3f env v
      | CollapsedState \<Rightarrow> ''CRITICAL: Ecosystem in COLLAPSED state''
      | DegradedState \<Rightarrow> ''WARNING: Ecosystem DEGRADED, intervention recommended'')"

fun starts_with :: "'a list \<Rightarrow> 'a list \<Rightarrow> bool" where
  "starts_with [] ys = True"
| "starts_with (x # xs) [] = False"
| "starts_with (x # xs) (y # ys) = (x = y \<and> starts_with xs ys)"

text \<open>Python's \<open>needle in haystack\<close> on strings.\<close>

fun str_contains :: "'a list \<Rightarrow> 'a list \<Rightarrow> bool" where
  "str_contains needle [] = (needle = [])"
| "str_contains needle (h # hs) = (starts_with needle (h # hs) \<or> str_contains needle hs)"

text \<open>
  The test \<open>'Missing' in w\<close> of \<open>validate_parameters\<close> on one warning; and the
  assumption under which the float formats cannot take part in a match: their texts
  (digits, sign, point, exponent, \<open>inf\<close>, \<open>nan\<close>) have no capital M.
\<close>

definition mentions_Missing :: "core_env \<Rightarrow> warning \<Rightarrow> bool" where
  "mentions_Missing env w = str_contains ''Missing'' (render env w)"

definition float_texts_ok :: "core_env \<Rightarrow> bool" where
  "float_texts_ok env =
     (\<forall>v. CHR ''M'' \<notin> set (float_str env v) \<and> CHR ''M'' \<notin> set (float_3f env v))"

subsubsection \<open>\<open>set_parameter\<close>, \<open>set_parameters\<close>, \<open>set_parameter_result\<close>\<close>

text \<open>
  A method that mutates \<open>self\<close> and may raise returns the outcome together with the
  object as it is afterwards. \<open>uncertainty or 0.05\<close> replaces \<open>None\<close> and \<open>0.0\<close>.
\<close>

definition set_parameter ::
  "string \<Rightarrow> real \<Rightarrow> real option \<Rightarrow> IBRComposite \<Rightarrow> (error + unit) \<times> IBRComposite" where
  "set_parameter name v unc self =
     (if \<not> (0 \<le> v \<and> v \<le> 1) then (Inl (ValueError_not_in_unit_interval name v), self)
      else (Inr (),
            self\<lparr>parameters :=
                   AList.update name
                     \<lparr> pvalue = v,
                       puncertainty =
                         Some (case unc of None \<Rightarrow> 0.05
                               | Some u \<Rightarrow> if u = 0 then 0.05 else u) \<rparr>
                     (parameters self)\<rparr>))"

fun set_parameters ::
  "(string \<times> real) list \<Rightarrow> IBRComposite \<Rightarrow> (error + unit) \<times> IBRComposite" where
  "set_parameters [] self = (Inr (), self)"
| "set_parameters ((name, v) # rest) self =
     (case set_parameter name v None self of
        (Inl e, self') \<Rightarrow> (Inl e, self')
      | (Inr u, self') \<Rightarrow> set_parameters rest self')"

definition set_parameter_result :: "string \<Rightarrow> ParameterResult \<Rightarrow> IBRComposite \<Rightarrow> IBRComposite" where
  "set_parameter_result name res self =
     self\<lparr>parameters :=
            AList.update name
              \<lparr> pvalue = pr_value res, puncertainty = Some (pr_uncertainty res) \<rparr>
              (parameters self)\<rparr>"

subsubsection \<open>\<open>validate_parameters\<close>\<close>

text \<open>
  \<open>missing\<close> and \<open>extra\<close> are Python sets, whose iteration order is not fixed; they
  are listed here in the order of the weight table and of insertion.
\<close>

definition range_warnings :: "(string \<times> param_entry) list \<Rightarrow> warning list" where
  "range_warnings items =
     concat (map (\<lambda>(name, data).
        if \<not> (0 \<le> pvalue data \<and> pvalue data \<le> 1) then [OutOfRange name (pvalue data)]
        else []) items)"

definition extreme_warnings :: "(string \<times> param_entry) list \<Rightarrow> warning list" where
  "extreme_warnings items =
     concat (map (\<lambda>(name, data).
        if pvalue data < 0.2 then [CriticalLow name (pvalue data)]
        else if pvalue data > 0.95 then [UnusuallyHigh name (pvalue data)]
        else []) items)"

definition missing_params :: "IBRComposite \<Rightarrow> string list" where
  "missing_params self =
     filter (\<lambda>p. p \<notin> set (map fst (parameters self))) (map fst IBR_WEIGHTS)"

definition extra_params :: "IBRComposite \<Rightarrow> string list" where
  "extra_params self =
     filter (\<lambda>p. p \<notin> set (map fst IBR_WEIGHTS)) (map fst (parameters self))"

definition validate_parameters :: "core_env \<Rightarrow> IBRComposite \<Rightarrow> bool \<times> warning list" where
  "validate_parameters env self =
     (let missing = missing_params self;
          warnings1 = (if missing \<noteq> [] then [MissingParameters missing] else []);
          extra = extra_params self;
          warnings2 = warnings1 @ (if extra \<noteq> [] then [ExtraParameters extra] else []);
          warnings3 = warnings2 @ range_warnings (parameters self);
          warnings4 = warnings3 @ extreme_warnings (parameters self);
          is_valid =
            (length (filter (\<lambda>w. str_contains ''Missing'' (render env w)) warnings4) = 0)
      in (is_valid, warnings4))"

subsubsection \<open>\<open>compute\<close>\<close>

definition apply_biome_correction :: "real \<Rightarrow> (string \<times> real) list \<Rightarrow> real" where
  "apply_biome_correction s params = s"

text \<open>The two loops over \<open>self.core.IBR_WEIGHTS.items()\<close>.\<close>

fun score_loop ::
  "(string \<times> real) list \<Rightarrow> (string \<times> real) list \<Rightarrow> real \<times> (string \<times> real) list
     \<Rightarrow> real \<times> (string \<times> real) list" where
  "score_loop param_values [] acc = acc"
| "score_loop param_values ((param, weight) # rest) (ibr_score, contribs) =
     (case map_of param_values param of
        None \<Rightarrow> score_loop param_values rest (ibr_score, contribs)
      | Some v \<Rightarrow>
          (let contrib = v * weight
           in score_loop param_values rest
                (ibr_score + contrib, AList.update param contrib contribs)))"

fun uncertainty_loop :: "(string \<times> real) list \<Rightarrow> (string \<times> real) list \<Rightarrow> real \<Rightarrow> real" where
  "uncertainty_loop param_uncertainties [] uncertainty_sq = uncertainty_sq"
| "uncertainty_loop param_uncertainties ((param, weight) # rest) uncertainty_sq =
     (case map_of param_uncertainties param of
        None \<Rightarrow> uncertainty_loop param_uncertainties rest uncertainty_sq
      | Some u \<Rightarrow>
          uncertainty_loop param_uncertainties rest (uncertainty_sq + weight\<^sup>2 * u\<^sup>2))"

definition weighted_items :: "IBRComposite \<Rightarrow> (string \<times> param_entry) list" where
  "weighted_items self =
     filter (\<lambda>(name, data). name \<in> set (map fst IBR_WEIGHTS)) (parameters self)"

definition entry_uncertainty :: "param_entry \<Rightarrow> real" where
  "entry_uncertainty data = (case puncertainty data of None \<Rightarrow> 0.05 | Some u \<Rightarrow> u)"

text \<open>\<open>if self.biome:\<close> is false for \<open>None\<close> and for the empty string.\<close>

definition biome_set :: "IBRComposite \<Rightarrow> bool" where
  "biome_set self = (case biome self of None \<Rightarrow> False | Some b \<Rightarrow> b \<noteq> [])"

definition score_warnings :: "real \<Rightarrow> warning list" where
  "score_warnings ibr_score =
     (if ibr_score < 0.45 then [CollapsedState]
      else if ibr_score < 0.6 then [DegradedState]
      else [])"

definition compute_body :: "core_env \<Rightarrow> bool \<Rightarrow> warning list \<Rightarrow> IBRComposite \<Rightarrow> IBRResult" where
  "compute_body env validate warnings self =
     (let param_values = map (\<lambda>(name, data). (name, pvalue data)) (weighted_items self);
          param_uncertainties =
            map (\<lambda>(name, data). (name, entry_uncertainty data)) (weighted_items self)
      in case score_loop param_values IBR_WEIGHTS (0, []) of
           (ibr_score0, contribs) \<Rightarrow>
             (let ibr_score =
                    (if biome_set self then apply_biome_correction ibr_score0 param_values
                     else ibr_score0);
                  uncertainty_sq = uncertainty_loop param_uncertainties IBR_WEIGHTS 0;
                  unc = sqrt uncertainty_sq;
                  cls = classify_ibr env ibr_score;
                  conf = 1 - unc
              in \<lparr> r_score = ibr_score,
                   r_classification = cls,
                   r_contributions = contribs,
                   r_uncertainty = unc,
                   r_confidence = conf,
                   r_plot_id = plot_id self,
                   r_biome = biome self,
                   r_warnings = warnings @ score_warnings ibr_score,
                   r_metadata = \<lparr> n_parameters = length param_values,
                                  validation_passed = validate,
                                  method_name = ''weighted_sum'' \<rparr> \<rparr>))"

definition compute :: "core_env \<Rightarrow> bool \<Rightarrow> IBRComposite \<Rightarrow> error + IBRResult" where
  "compute env validate self =
     (if validate then
        (case validate_parameters env self of
           (is_valid, warnings) \<Rightarrow>
             if \<not> is_valid then Inl (ValueError_validation_failed warnings)
             else Inr (compute_body env validate warnings self))
      else Inr (compute_body env validate [] self))"

subsection \<open>\<open>biotica/statistics/tipping_points.py\<close>: \<open>TippingPointDetector\<close>\<close>

text \<open>
  A sample of the input series is \<open>None\<close> where the source has NaN, and so is a
  rolling statistic that NumPy computes as a non-finite number. The numerical routines
  of NumPy and SciPy that \<open>detect\<close> calls are parameters of the model; the module flag
  \<open>SCIPY_AVAILABLE\<close> is an argument of \<open>detect\<close>.
\<close>

record TippingPointDetector =
  window :: int
  lag :: int
  min_data_points :: int
  significance_level :: real
  detrend :: bool

record numlib =
  np_var :: "real list \<Rightarrow> real"
  np_corrcoef :: "real list \<Rightarrow> real list \<Rightarrow> real option"
  stats_skew :: "real list \<Rightarrow> real"
  stats_kendalltau :: "real list \<Rightarrow> real option list \<Rightarrow> real \<times> real"
  np_polyfit :: "real list \<Rightarrow> real list \<Rightarrow> real \<times> real"
  fft_power :: "real list \<Rightarrow> real list option"

record tp_metrics =
  variance_trend_m :: real
  variance_p_value :: real
  variance_current :: real
  variance_initial :: real
  variance_ratio :: real
  autocorrelation_trend_m :: real
  autocorrelation_p_value :: real
  autocorrelation_current :: real
  autocorrelation_initial :: real
  skewness_trend_m :: real
  skewness_p_value :: real
  skewness_current :: real
  recovery_rate_trend_m :: real
  recovery_rate_p_value :: real
  recovery_rate_current :: "real option"
  indicators :: "string list"
  n_points :: nat
  window_size :: int

datatype tp_metadata =
    Insufficient_data nat int
  | SciPy_not_available
  | Analysed string bool int real

record TippingPointResult =
  critical_slowing_down :: bool
  warning_level :: int
  variance_trend :: real
  autocorrelation_trend :: real
  skewness_trend :: real
  recovery_rate_trend :: real
  estimated_months :: int
  tp_confidence :: real
  metrics :: "tp_metrics option"
  metadata :: tp_metadata

datatype tp_error =
    IndexError_boolean_index
  | ValueError_negative_dimensions
  | ValueError_corrcoef_shapes

subsubsection \<open>Array helpers\<close>

text \<open>Python's \<open>xs[start:stop]\<close>: a negative bound counts from the end, then both are clipped.\<close>

definition slice_bound :: "int \<Rightarrow> nat \<Rightarrow> nat" where
  "slice_bound k n = nat (min (max (if k < 0 then k + int n else k) 0) (int n))"

definition py_slice :: "'a list \<Rightarrow> int \<Rightarrow> int \<Rightarrow> 'a list" where
  "py_slice xs start stop =
     (let a = slice_bound start (length xs); b = slice_bound stop (length xs)
      in take (b - a) (drop a xs))"

definition py_slice_from :: "'a list \<Rightarrow> int \<Rightarrow> 'a list" where
  "py_slice_from xs start = drop (slice_bound start (length xs)) xs"

definition arange :: "nat \<Rightarrow> real list" where
  "arange n = map real [0..<n]"

fun np_diff :: "real list \<Rightarrow> real list" where
  "np_diff (a # b # rest) = (b - a) # np_diff (b # rest)"
| "np_diff xs = []"

definition np_mean :: "real list \<Rightarrow> real" where
  "np_mean xs = sum_list xs / real (length xs)"

definition np_median :: "real list \<Rightarrow> real" where
  "np_median xs =
     (let s = sort xs; n = length xs
      in if even n then (s ! (n div 2 - 1) + s ! (n div 2)) / 2 else s ! (n div 2))"

definition fftfreq :: "nat \<Rightarrow> real list" where
  "fftfreq n =
     map (\<lambda>k. real_of_int k / real n)
       (map int [0..<(n - 1) div 2 + 1] @ map (\<lambda>j. int j - int (n div 2)) [0..<n div 2])"

subsubsection \<open>\<open>_detrend_series\<close>, \<open>_estimate_recovery_rate\<close>\<close>

definition detrend_series :: "numlib \<Rightarrow> real list \<Rightarrow> real list" where
  "detrend_series lib timeseries =
     (let x = arange (length timeseries)
      in case np_polyfit lib x timeseries of
           (slope, intercept) \<Rightarrow>
             map (\<lambda>(xi, yi). yi - (slope * xi + intercept)) (zip x timeseries))"

text \<open>
  The \<open>try\<close> block falls through to the default 0.5 when anything in it raises
  (\<open>fft_power\<close> returning \<open>None\<close>, or a power array that the mask does not fit) and
  when the low-frequency mask selects nothing. A total power of zero makes the NumPy
  division yield a non-finite number without raising: the result is \<open>None\<close>.
\<close>

definition estimate_recovery_rate :: "numlib \<Rightarrow> real list \<Rightarrow> real option" where
  "estimate_recovery_rate lib segment =
     (if length segment < 3 then Some 0
      else case fft_power lib segment of
             None \<Rightarrow> Some (1 / 2)
           | Some pwr \<Rightarrow>
               (let freqs = fftfreq (length segment)
                in if length pwr \<noteq> length freqs then Some (1 / 2)
                   else
                     (let low = map fst (filter (\<lambda>(pw, f). \<bar>f\<bar> < 0.1) (zip pwr freqs))
                      in if low \<noteq> [] then
                           (let low_freq_power = np_mean low; total_power = np_mean pwr
                            in if total_power = 0 then None
                               else Some (1 - low_freq_power / total_power))
                         else Some (1 / 2))))"

subsubsection \<open>\<open>_estimate_time_to_tipping\<close>\<close>

text \<open>\<open>months_per_step\<close> is computed as in the source; the source never reads it again.\<close>

definition estimate_time_to_tipping ::
  "real \<Rightarrow> real \<Rightarrow> real list \<Rightarrow> real list option \<Rightarrow> int" where
  "estimate_time_to_tipping tau_var tau_ac timeseries timestamps =
     (let months_per_step =
            (case timestamps of
               None \<Rightarrow> (1 :: real)
             | Some ts \<Rightarrow>
                 if length ts > 1 then
                   (let time_diffs = np_diff ts;
                        median_step = np_median time_diffs
                    in if median_step \<le> 31 then 1 / 30.44
                       else if median_step \<le> 365 then 1
                       else 12)
                 else 1);
          trend_strength = (\<bar>tau_var\<bar> + \<bar>tau_ac\<bar>) / 2
      in if trend_strength > 0.3 then 12
         else if trend_strength > 0.2 then 24
         else if trend_strength > 0.1 then 36
         else 60)"

subsubsection \<open>\<open>_calculate_confidence\<close>\<close>

definition calculate_confidence :: "int \<Rightarrow> real \<Rightarrow> real \<Rightarrow> nat \<Rightarrow> real" where
  "calculate_confidence level p_var p_ac n =
     (let c0 = 0 + real_of_int level * 0.2;
          c1 = (if p_var < 0.01 then c0 + 0.2 else if p_var < 0.05 then c0 + 0.1 else c0);
          c2 = (if p_ac < 0.01 then c1 + 0.2 else if p_ac < 0.05 then c1 + 0.1 else c1);
          c3 = (if n > 200 then c2 + 0.2 else if n > 100 then c2 + 0.1 else c2)
      in min c3 1)"

definition fallback_result :: TippingPointResult where
  "fallback_result =
     \<lparr> critical_slowing_down = False, warning_level = 0,
       variance_trend = 0, autocorrelation_trend = 0,
       skewness_trend = 0, recovery_rate_trend = 0,
       estimated_months = 0, tp_confidence = 0,
       metrics = None, metadata = SciPy_not_available \<rparr>"

text \<open>The result that \<open>detect\<close> builds at lines 111 to 122 for a series that is too short.\<close>

definition insufficient_result :: "nat \<Rightarrow> int \<Rightarrow> TippingPointResult" where
  "insufficient_result n nmin =
     \<lparr> critical_slowing_down = False, warning_level = 0,
       variance_trend = 0, autocorrelation_trend = 0,
       skewness_trend = 0, recovery_rate_trend = 0,
       estimated_months = 0, tp_confidence = 0,
       metrics = None, metadata = Insufficient_data n nmin \<rparr>"

subsubsection \<open>\<open>detect\<close>\<close>

text \<open>
  The warning level starts as the integer 0 and grows by 1 or 0.5 in four steps, each
  step also recording the indicator's name.
\<close>

definition accumulate_warnings ::
  "real \<Rightarrow> real \<times> real \<Rightarrow> real \<times> real \<Rightarrow> real \<times> real \<Rightarrow> real \<times> real
     \<Rightarrow> real \<times> string list" where
  "accumulate_warnings alpha var ac skew rec =
     (case (var, ac, skew, rec) of
        ((tau_var, p_var), (tau_ac, p_ac), (tau_skew, p_skew), (tau_rec, p_rec)) \<Rightarrow>
     (let s0 = (0 :: real, [] :: string list);
          s1 = (if tau_var > 0.2 \<and> p_var < alpha
                  then (fst s0 + 1, snd s0 @ [''variance_increase''])
                else if tau_var > 0.1
                  then (fst s0 + 0.5, snd s0 @ [''variance_increase_trend''])
                else s0);
          s2 = (if tau_ac > 0.2 \<and> p_ac < alpha
                  then (fst s1 + 1, snd s1 @ [''autocorrelation_increase''])
                else if tau_ac > 0.1
                  then (fst s1 + 0.5, snd s1 @ [''autocorrelation_trend''])
                else s1);
          s3 = (if \<bar>tau_skew\<bar> > 0.15 \<and> p_skew < alpha
                  then (fst s2 + 0.5, snd s2 @ [''skewness_change''])
                else s2);
          s4 = (if tau_rec < - 0.15 \<and> p_rec < alpha
                  then (fst s3 + 0.5, snd s3 @ [''recovery_slowing''])
                else s3)
      in s4))"

text \<open>
  \<open>np.corrcoef\<close> raises ValueError when its two arguments differ in length, which
  \<open>segment[:-lag]\<close> and \<open>segment[lag:]\<close> do for \<open>lag = 0\<close>; a NaN coefficient
  (\<open>None\<close>) is replaced by 0.
\<close>

definition rolling_autocorrelation :: "numlib \<Rightarrow> int \<Rightarrow> real list \<Rightarrow> tp_error + real" where
  "rolling_autocorrelation lib lg segment =
     (if int (length segment) > lg then
        (let a = py_slice segment 0 (- lg); b = py_slice_from segment lg
         in if length a \<noteq> length b then Inl ValueError_corrcoef_shapes
            else (case np_corrcoef lib a b of
                    None \<Rightarrow> Inr 0
                  | Some autocorr \<Rightarrow> Inr autocorr))
      else Inr 0)"

text \<open>The rolling loop stops at the first window whose statistic raises.\<close>

fun collect :: "('e + 'a) list \<Rightarrow> 'e + 'a list" where
  "collect [] = Inr []"
| "collect (Inl e # rest) = Inl e"
| "collect (Inr v # rest) = (case collect rest of Inl e \<Rightarrow> Inl e | Inr vs \<Rightarrow> Inr (v # vs))"

definition last_or_zero :: "real list \<Rightarrow> real" where
  "last_or_zero xs = (if length xs > 0 then last xs else 0)"

definition last_or_zero_nan :: "real option list \<Rightarrow> real option" where
  "last_or_zero_nan xs = (if length xs > 0 then last xs else Some 0)"

definition first_or_zero :: "real list \<Rightarrow> real" where
  "first_or_zero xs = (if length xs > 0 then hd xs else 0)"

definition rolling_segments :: "TippingPointDetector \<Rightarrow> real list \<Rightarrow> nat \<Rightarrow> real list list" where
  "rolling_segments self timeseries n_rolling =
     map (\<lambda>i. py_slice timeseries (int i) (int i + window self)) [0..<n_rolling]"

text \<open>
  What \<open>detect\<close> does after the rolling loop (lines 154 to 256), given the
  autocorrelations the loop has filled in.
\<close>

definition analyse_rolled ::
  "numlib \<Rightarrow> TippingPointDetector \<Rightarrow> real list \<Rightarrow> real list option \<Rightarrow> string \<Rightarrow> nat
     \<Rightarrow> real list \<Rightarrow> TippingPointResult" where
  "analyse_rolled lib self timeseries timestamps variable_name n_rolling autocorrelations =
     (let segments = rolling_segments self timeseries n_rolling;
          variances = map (np_var lib) segments;
          skewnesses = map (stats_skew lib) segments;
          recovery_rates = map (estimate_recovery_rate lib) segments;
          x = arange n_rolling;
          var = stats_kendalltau lib x (map Some variances);
          ac = stats_kendalltau lib x (map Some autocorrelations);
          skew = stats_kendalltau lib x (map Some skewnesses);
          rec = stats_kendalltau lib x recovery_rates;
          acc = accumulate_warnings (significance_level self) var ac skew rec;
          level = min \<lfloor>fst acc\<rfloor> 3;
          months = estimate_time_to_tipping (fst var) (fst ac) timeseries timestamps;
          conf = calculate_confidence level (snd var) (snd ac) (length timeseries)
      in \<lparr> critical_slowing_down = (level \<ge> 2),
           warning_level = level,
           variance_trend = fst var,
           autocorrelation_trend = fst ac,
           skewness_trend = fst skew,
           recovery_rate_trend = fst rec,
           estimated_months = months,
           tp_confidence = conf,
           metrics = Some
             \<lparr> variance_trend_m = fst var,
               variance_p_value = snd var,
               variance_current = last_or_zero variances,
               variance_initial = first_or_zero variances,
               variance_ratio =
                 (if length variances > 0 \<and> hd variances > 0
                  then last variances / hd variances else 1),
               autocorrelation_trend_m = fst ac,
               autocorrelation_p_value = snd ac,
               autocorrelation_current = last_or_zero autocorrelations,
               autocorrelation_initial = first_or_zero autocorrelations,
               skewness_trend_m = fst skew,
               skewness_p_value = snd skew,
               skewness_current = last_or_zero skewnesses,
               recovery_rate_trend_m = fst rec,
               recovery_rate_p_value = snd rec,
               recovery_rate_current = last_or_zero_nan recovery_rates,
               indicators = snd acc,
               n_points = length timeseries,
               window_size = window self \<rparr>,
           metadata =
             Analysed variable_name (detrend self) (lag self) (significance_level self) \<rparr>)"

definition analyse ::
  "numlib \<Rightarrow> TippingPointDetector \<Rightarrow> real list \<Rightarrow> real list option \<Rightarrow> string \<Rightarrow> nat
     \<Rightarrow> tp_error + TippingPointResult" where
  "analyse lib self timeseries timestamps variable_name n_rolling =
     (case collect (map (rolling_autocorrelation lib (lag self))
                      (rolling_segments self timeseries n_rolling)) of
        Inl e \<Rightarrow> Inl e
      | Inr autocorrelations \<Rightarrow>
          Inr (analyse_rolled lib self timeseries timestamps variable_name n_rolling
                 autocorrelations))"

definition drop_nan :: "real option list \<Rightarrow> real list" where
  "drop_nan series = concat (map (\<lambda>v. case v of None \<Rightarrow> [] | Some y \<Rightarrow> [y]) series)"

text \<open>
  \<open>np.asarray(timestamps)[valid_mask]\<close> raises IndexError when the mask and the
  timestamps differ in length; \<open>np.zeros(n_rolling)\<close> raises ValueError when the window
  is longer than the series; the rolling loop raises with \<open>np.corrcoef\<close>.
\<close>

definition detect ::
  "bool \<Rightarrow> numlib \<Rightarrow> TippingPointDetector \<Rightarrow> real option list \<Rightarrow> real list option \<Rightarrow> string
     \<Rightarrow> tp_error + TippingPointResult" where
  "detect SCIPY_AVAILABLE lib self series timestamps variable_name =
     (if \<not> SCIPY_AVAILABLE then Inr fallback_result
      else
        (let valid_mask = map (\<lambda>v. case v of None \<Rightarrow> False | Some y \<Rightarrow> True) series;
             timeseries = drop_nan series
         in case (case timestamps of
                    None \<Rightarrow> Inr None
                  | Some ts \<Rightarrow>
                      if length ts \<noteq> length valid_mask then Inl IndexError_boolean_index
                      else Inr (Some (map fst (filter snd (zip ts valid_mask))))) of
              Inl e \<Rightarrow> Inl e
            | Inr timestamps' \<Rightarrow>
                if int (length timeseries) < min_data_points self then
                  Inr (insufficient_result (length timeseries) (min_data_points self))
                else
                  (let timeseries' =
                         (if detrend self then detrend_series lib timeseries else timeseries);
                       n_rolling = int (length timeseries') - window self
                   in if n_rolling < 0 then Inl ValueError_negative_dimensions
                      else analyse lib self timeseries' timestamps' variable_name
                             (nat n_rolling))))"

subsection \<open>The specification's reading of the weighted average\<close>

definition lookup_w :: "(string \<times> real) list \<Rightarrow> string \<Rightarrow> real" where
  "lookup_w ws p = (case map_of ws p of None \<Rightarrow> 0 | Some w \<Rightarrow> w)"

definition weight_of :: "string \<Rightarrow> real" where
  "weight_of p = lookup_w IBR_WEIGHTS p"

definition present :: "(string \<rightharpoonup> real) \<Rightarrow> string set" where
  "present ps = dom ps \<inter> set (map fst IBR_WEIGHTS)"

definition value_of :: "(string \<rightharpoonup> real) \<Rightarrow> string \<Rightarrow> real" where
  "value_of ps p = (case ps p of None \<Rightarrow> 0 | Some v \<Rightarrow> v)"

definition weighted_average :: "(string \<rightharpoonup> real) \<Rightarrow> real" where
  "weighted_average ps =
     (\<Sum>p\<in>present ps. value_of ps p * weight_of p) / (\<Sum>p\<in>present ps. weight_of p)"

definition renormalized :: "(string \<rightharpoonup> real) \<Rightarrow> string \<Rightarrow> real" where
  "renormalized ps p = weight_of p / (\<Sum>q\<in>present ps. weight_of q)"

subsection \<open>The specification's reading of the composite result\<close>

definition used_params :: "IBRComposite \<Rightarrow> string set" where
  "used_params self = set (map fst (parameters self)) \<inter> set (map fst IBR_WEIGHTS)"

definition stored_uncertainty :: "IBRComposite \<Rightarrow> string \<Rightarrow> real" where
  "stored_uncertainty self p =
     (case map_of (parameters self) p of None \<Rightarrow> 0 | Some data \<Rightarrow> entry_uncertainty data)"

definition stored_value :: "IBRComposite \<Rightarrow> string \<Rightarrow> real" where
  "stored_value self p =
     (case map_of (parameters self) p of None \<Rightarrow> 0 | Some data \<Rightarrow> pvalue data)"

subsection \<open>Concrete objects used in evaluations\<close>

text \<open>
  \<open>new_composite\<close> is \<open>IBRComposite.__init__\<close>; the other objects are built from it
  with the setters. \<open>demo_env\<close> fixes the two float formats to constant texts.
\<close>

definition new_composite :: "string option \<Rightarrow> string option \<Rightarrow> IBRComposite" where
  "new_composite pid b = \<lparr> plot_id = pid, biome = b, parameters = [] \<rparr>"

definition uniform_composite :: "real \<Rightarrow> real \<Rightarrow> IBRComposite" where
  "uniform_composite v u =
     fold (\<lambda>(name, w) self. snd (set_parameter name v (Some u) self)) IBR_WEIGHTS
       (new_composite None None)"

definition demo_env :: core_env where
  "demo_env = \<lparr> classify_ibr = classify_ibr_spec,
                 float_str = (\<lambda>x. ''1.5''), float_3f = (\<lambda>x. ''1.500'') \<rparr>"

definition two_perfect :: IBRComposite where
  "two_perfect =
     snd (set_parameter ''MDI'' 1 None (snd (set_parameter ''VCA'' 1 None (new_composite None None))))"

definition nine_and_extra :: IBRComposite where
  "nine_and_extra =
     snd (set_parameter ''Missing'' (1/2) None
       (snd (set_parameters (map (\<lambda>(name, w). (name, 1/2)) IBR_WEIGHTS)
          (new_composite None None))))"

definition out_of_range_stored :: IBRComposite where
  "out_of_range_stored =
     set_parameter_result ''VCA''
       \<lparr> pr_value = 3 / 2, pr_uncertainty = 0.05, pr_confidence = 0.95 \<rparr>
       (uniform_composite (1 / 2) 10)"

subsection \<open>The specification's reading of the detector's result\<close>

definition spec_accumulated :: "real \<Rightarrow> TippingPointResult \<Rightarrow> tp_metrics \<Rightarrow> real" where
  "spec_accumulated alpha r m =
     (if variance_trend r > 0.2 \<and> variance_p_value m < alpha then 1
      else if variance_trend r > 0.1 then 0.5 else 0)
   + (if autocorrelation_trend r > 0.2 \<and> autocorrelation_p_value m < alpha then 1
      else if autocorrelation_trend r > 0.1 then 0.5 else 0)
   + (if \<bar>skewness_trend r\<bar> > 0.15 \<and> skewness_p_value m < alpha then 0.5 else 0)
   + (if recovery_rate_trend r < - 0.15 \<and> recovery_rate_p_value m < alpha then 0.5 else 0)"

definition months_by_trend :: "real \<Rightarrow> real \<Rightarrow> int" where
  "months_by_trend tau_var tau_ac =
     (let t = (\<bar>tau_var\<bar> + \<bar>tau_ac\<bar>) / 2
      in if t > 0.3 then 12 else if t > 0.2 then 24 else if t > 0.1 then 36 else 60)"

definition aligned :: "real option list \<Rightarrow> real list option \<Rightarrow> bool" where
  "aligned series timestamps =
     (case timestamps of None \<Rightarrow> True | Some ts \<Rightarrow> length ts = length series)"

subsection \<open>Concrete detectors and series used in evaluations\<close>

text \<open>
  \<open>default_detector\<close> holds the defaults of \<open>TippingPointDetector.__init__\<close>.
  \<open>stub_lib\<close> stands in for NumPy and SciPy where \<open>detect\<close> is run on a concrete
  series: its Kendall test always reports \<open>tau = 0.3\<close>, \<open>p = 0.01\<close>.
\<close>

definition default_detector :: TippingPointDetector where
  "default_detector =
     \<lparr> window = 24, lag = 1, min_data_points = 50, significance_level = 0.05,
       detrend = True \<rparr>"

definition stub_lib :: numlib where
  "stub_lib =
     \<lparr> np_var = (\<lambda>xs. 0),
       np_corrcoef = (\<lambda>xs ys. None),
       stats_skew = (\<lambda>xs. 0),
       stats_kendalltau = (\<lambda>xs ys. (3 / 10, 1 / 100)),
       np_polyfit = (\<lambda>xs ys. (0, 0)),
       fft_power = (\<lambda>xs. None) \<rparr>"

definition small_detector :: TippingPointDetector where
  "small_detector =
     \<lparr> window = 1, lag = 1, min_data_points = 2, significance_level = 0.05,
       detrend = False \<rparr>"

definition short_series :: "real option list" where
  "short_series = [Some 0.71, None, Some 0.69]"

definition three_points :: "real option list" where
  "three_points = [Some 0.1, Some 0.2, Some 0.3]"

section \<open>Properties of \<open>BIOTICACore.compute_ibr\<close>\<close>

lemma ibr_loop_sums:
  "ibr_loop ps ws (r, t, c) = (r', t', c') \<Longrightarrow>
     r' = r + (\<Sum>(p, w)\<leftarrow>ws. if p \<in> dom ps then value_of ps p * w else 0) \<and>
     t' = t + (\<Sum>(p, w)\<leftarrow>ws. if p \<in> dom ps then 1 * w else 0)"
proof (induction ws arbitrary: r t c)
  case Nil
  then show ?case by simp
next
  case (Cons a ws)
  obtain p w where a: "a = (p, w)" by (cases a)
  show ?case
  proof (cases "ps p")
    case None
    with Cons.prems a have "ibr_loop ps ws (r, t, c) = (r', t', c')" by simp
    from Cons.IH[OF this] None a show ?thesis by (simp add: domIff)
  next
    case (Some v)
    with Cons.prems a have
      "ibr_loop ps ws (r + v * w, t + w, AList.update p (v * w) c) = (r', t', c')"
      by (simp add: Let_def)
    from Cons.IH[OF this] Some a show ?thesis
      by (simp add: domIff value_of_def)
  qed
qed

lemma sum_list_present:
  "distinct (map fst ws) \<Longrightarrow>
     (\<Sum>(p, w)\<leftarrow>ws. if p \<in> D then g p * w else 0)
       = (\<Sum>p\<in>D \<inter> set (map fst ws). g p * lookup_w ws p)"
proof (induction ws)
  case Nil
  then show ?case by simp
next
  case (Cons a ws)
  obtain p w where a: "a = (p, w)" by (cases a)
  from Cons.prems a have fresh: "p \<notin> set (map fst ws)" and d: "distinct (map fst ws)"
    by simp_all
  have same: "(\<Sum>q\<in>D \<inter> set (map fst ws). g q * lookup_w (a # ws) q)
                = (\<Sum>q\<in>D \<inter> set (map fst ws). g q * lookup_w ws q)"
    using fresh a by (intro sum.cong) (auto simp: lookup_w_def)
  show ?case
  proof (cases "p \<in> D")
    case True
    then have "D \<inter> set (map fst (a # ws)) = insert p (D \<inter> set (map fst ws))"
      using a by auto
    moreover have "p \<notin> D \<inter> set (map fst ws)" using fresh by simp
    moreover have "lookup_w (a # ws) p = w" using a by (simp add: lookup_w_def)
    ultimately show ?thesis
      using Cons.IH[OF d] same a True by simp
  next
    case False
    then have "D \<inter> set (map fst (a # ws)) = D \<inter> set (map fst ws)"
      using a by auto
    then show ?thesis using Cons.IH[OF d] same a False by simp
  qed
qed

lemma distinct_keys: "distinct (map fst IBR_WEIGHTS)"
  by (simp add: IBR_WEIGHTS_def)

lemma weight_of_positive: "p \<in> set (map fst IBR_WEIGHTS) \<Longrightarrow> 0 < weight_of p"
  by (auto simp: IBR_WEIGHTS_def lookup_w_def weight_of_def)

lemma finite_present: "finite (present ps)"
  by (simp add: present_def)

lemma total_weight_positive:
  assumes "present ps \<noteq> {}"
  shows "0 < (\<Sum>p\<in>present ps. weight_of p)"
proof -
  have "\<And>p. p \<in> present ps \<Longrightarrow> 0 < weight_of p"
    by (rule weight_of_positive) (simp add: present_def)
  then show ?thesis
    using assms finite_present by (intro sum_pos) auto
qed

lemma compute_ibr_sums:
  "score (compute_ibr ps) = (\<Sum>p\<in>present ps. value_of ps p * weight_of p)"
  "normalized_score (compute_ibr ps) =
     (if (\<Sum>p\<in>present ps. weight_of p) > 0
      then (\<Sum>p\<in>present ps. value_of ps p * weight_of p) / (\<Sum>p\<in>present ps. weight_of p)
      else 0)"
proof -
  obtain r t c where loop: "ibr_loop ps IBR_WEIGHTS (0, 0, []) = (r, t, c)"
    by (cases "ibr_loop ps IBR_WEIGHTS (0, 0, [])") auto
  from ibr_loop_sums[OF loop]
  have r: "r = (\<Sum>p\<in>present ps. value_of ps p * weight_of p)"
    and t: "t = (\<Sum>p\<in>present ps. weight_of p)"
    using sum_list_present[OF distinct_keys, of "dom ps" "value_of ps"]
          sum_list_present[OF distinct_keys, of "dom ps" "\<lambda>_. 1"]
    by (simp_all add: present_def weight_of_def)
  show "score (compute_ibr ps) = (\<Sum>p\<in>present ps. value_of ps p * weight_of p)"
    using loop r by (simp add: compute_ibr_def Let_def)
  show "normalized_score (compute_ibr ps) =
     (if (\<Sum>p\<in>present ps. weight_of p) > 0
      then (\<Sum>p\<in>present ps. value_of ps p * weight_of p) / (\<Sum>p\<in>present ps. weight_of p)
      else 0)"
    using loop r t by (simp add: compute_ibr_def Let_def)
qed

lemma compute_ibr_classification:
  "classification (compute_ibr ps) = classify_score (normalized_score (compute_ibr ps))"
  by (simp add: compute_ibr_def Let_def split: prod.splits)

lemma classify_score_table:
  "classify_score s =
     (if s > 0.88 then PRISTINE
      else if 0.75 < s \<and> s \<le> 0.88 then FUNCTIONAL
      else if 0.60 < s \<and> s \<le> 0.75 then IMPAIRED
      else if 0.45 < s \<and> s \<le> 0.60 then DEGRADED
      else COLLAPSED)"
  "classify_score 0.4499 = COLLAPSED" "classify_score 0.4501 = DEGRADED"
  "s \<le> 0.45 \<Longrightarrow> classify_score s = COLLAPSED"
  by (auto simp: classify_score_def)

text \<open>
  \<open>compute_ibr\<close> normalises: for every parameter mapping its \<open>normalized_score\<close> is 0
  when no parameter of the weight table is present, and otherwise the sum of value times
  weight over the present parameters divided by the sum of their weights; this is the
  weighted average under the weights renormalised over the present subset, and the
  renormalised weights sum to 1.
\<close>

lemma compute_ibr_normalized_score:
  "normalized_score (compute_ibr ps) =
     (if present ps = {} then 0 else weighted_average ps) \<and>
   weighted_average ps = (\<Sum>p\<in>present ps. value_of ps p * renormalized ps p) \<and>
   (\<Sum>p\<in>present ps. renormalized ps p) = (if present ps = {} then 0 else 1)"
proof (intro conjI)
  show "normalized_score (compute_ibr ps) = (if present ps = {} then 0 else weighted_average ps)"
    using total_weight_positive[of ps]
    by (auto simp: compute_ibr_sums weighted_average_def)
  show "weighted_average ps = (\<Sum>p\<in>present ps. value_of ps p * renormalized ps p)"
    by (simp add: weighted_average_def renormalized_def sum_divide_distrib)
  show "(\<Sum>p\<in>present ps. renormalized ps p) = (if present ps = {} then 0 else 1)"
  proof (cases "present ps = {}")
    case True
    then show ?thesis by simp
  next
    case False
    from total_weight_positive[OF False] have "(\<Sum>q\<in>present ps. weight_of q) \<noteq> 0"
      by simp
    then show ?thesis
      using False by (simp add: renormalized_def sum_divide_distrib[symmetric])
  qed
qed

section \<open>Properties of \<open>IBRComposite\<close>\<close>

lemma sum_list_keys:
  "distinct (map fst ws) \<Longrightarrow>
     (\<Sum>(p, w)\<leftarrow>ws. if p \<in> D then h p w else 0)
       = (\<Sum>p\<in>D \<inter> set (map fst ws). h p (lookup_w ws p))"
proof (induction ws)
  case Nil
  then show ?case by simp
next
  case (Cons a ws)
  obtain p w where a: "a = (p, w)" by (cases a)
  from Cons.prems a have fresh: "p \<notin> set (map fst ws)" and d: "distinct (map fst ws)"
    by simp_all
  have same: "(\<Sum>q\<in>D \<inter> set (map fst ws). h q (lookup_w (a # ws) q))
                = (\<Sum>q\<in>D \<inter> set (map fst ws). h q (lookup_w ws q))"
    using fresh a by (intro sum.cong) (auto simp: lookup_w_def)
  show ?case
  proof (cases "p \<in> D")
    case True
    then have "D \<inter> set (map fst (a # ws)) = insert p (D \<inter> set (map fst ws))"
      using a by auto
    moreover have "p \<notin> D \<inter> set (map fst ws)" using fresh by simp
    moreover have "lookup_w (a # ws) p = w" using a by (simp add: lookup_w_def)
    ultimately show ?thesis
      using Cons.IH[OF d] same a True by simp
  next
    case False
    then have "D \<inter> set (map fst (a # ws)) = D \<inter> set (map fst ws)"
      using a by auto
    then show ?thesis using Cons.IH[OF d] same a False by simp
  qed
qed

lemma map_of_weighted:
  "map_of (map (\<lambda>(name, data). (name, f data))
             (filter (\<lambda>(name, data). name \<in> K) items)) p
     = (if p \<in> K then map_option f (map_of items p) else None)"
  by (induction items) (auto split: prod.splits)

lemma uncertainty_loop_sum:
  "uncertainty_loop pu ws u0 =
     u0 + (\<Sum>(p, w)\<leftarrow>ws. if p \<in> dom (map_of pu)
                           then w\<^sup>2 * (case map_of pu p of None \<Rightarrow> 0 | Some u \<Rightarrow> u)\<^sup>2 else 0)"
proof (induction ws arbitrary: u0)
  case Nil
  then show ?case by simp
next
  case (Cons a ws)
  obtain p w where a: "a = (p, w)" by (cases a)
  show ?case
    by (cases "map_of pu p") (simp_all add: a Cons.IH domIff)
qed

lemma score_loop_sum:
  "score_loop pv ws (s0, c0) = (s, c) \<Longrightarrow>
     s = s0 + (\<Sum>(p, w)\<leftarrow>ws. if p \<in> dom (map_of pv)
                           then (case map_of pv p of None \<Rightarrow> 0 | Some v \<Rightarrow> v) * w else 0)"
proof (induction ws arbitrary: s0 c0)
  case Nil
  then show ?case by simp
next
  case (Cons a ws)
  obtain p w where a: "a = (p, w)" by (cases a)
  show ?case
  proof (cases "map_of pv p")
    case None
    with Cons.prems a have "score_loop pv ws (s0, c0) = (s, c)" by simp
    from Cons.IH[OF this] None a show ?thesis by (simp add: domIff)
  next
    case (Some v)
    with Cons.prems a have
      "score_loop pv ws (s0 + v * w, AList.update p (v * w) c0) = (s, c)"
      by (simp add: Let_def)
    from Cons.IH[OF this] Some a show ?thesis by (simp add: domIff)
  qed
qed

lemma apply_biome_correction_id: "apply_biome_correction s params = s"
  by (simp add: apply_biome_correction_def)

lemma body_uncertainty:
  "r_uncertainty (compute_body env validate ws self) =
     sqrt (\<Sum>p\<in>used_params self. (weight_of p)\<^sup>2 * (stored_uncertainty self p)\<^sup>2)"
proof -
  let ?K = "set (map fst IBR_WEIGHTS)"
  let ?pu = "map (\<lambda>(name, data). (name, entry_uncertainty data)) (weighted_items self)"
  have mo: "\<And>p. map_of ?pu p =
      (if p \<in> ?K then map_option entry_uncertainty (map_of (parameters self) p) else None)"
    unfolding weighted_items_def by (rule map_of_weighted)
  have "dom (map_of ?pu) = {p. p \<in> ?K \<and> map_of (parameters self) p \<noteq> None}"
    unfolding dom_def mo by auto
  then have dom_pu: "dom (map_of ?pu) = used_params self"
    unfolding used_params_def by (auto simp: map_of_eq_None_iff)
  have val: "\<And>p. p \<in> dom (map_of ?pu) \<Longrightarrow>
      (case map_of ?pu p of None \<Rightarrow> 0 | Some u \<Rightarrow> u) = stored_uncertainty self p"
    by (auto simp: mo stored_uncertainty_def split: if_splits option.splits)
  have "uncertainty_loop ?pu IBR_WEIGHTS 0 =
      (\<Sum>(p, w)\<leftarrow>IBR_WEIGHTS. if p \<in> dom (map_of ?pu)
          then w\<^sup>2 * (stored_uncertainty self p)\<^sup>2 else 0)"
    unfolding uncertainty_loop_sum
    by (simp add: val cong: if_cong)
  also have "\<dots> = (\<Sum>p\<in>dom (map_of ?pu) \<inter> ?K.
                      (weight_of p)\<^sup>2 * (stored_uncertainty self p)\<^sup>2)"
    using sum_list_keys[of IBR_WEIGHTS "dom (map_of ?pu)"
                          "\<lambda>p w. w\<^sup>2 * (stored_uncertainty self p)\<^sup>2"]
    by (simp add: weight_of_def IBR_WEIGHTS_def)
  also have "dom (map_of ?pu) \<inter> ?K = used_params self"
    unfolding dom_pu by (auto simp: used_params_def)
  finally show ?thesis
    by (simp add: compute_body_def Let_def split: prod.splits)
qed

lemma body_confidence:
  "r_confidence (compute_body env validate ws self) =
     1 - r_uncertainty (compute_body env validate ws self)"
  by (simp add: compute_body_def Let_def split: prod.splits)

lemma compute_cases:
  "compute env validate self = Inr r \<Longrightarrow>
     \<exists>ws. r = compute_body env validate ws self"
  by (auto simp: compute_def split: if_splits prod.splits)

lemma uniform_composite_parameters:
  "0 \<le> v \<Longrightarrow> v \<le> 1 \<Longrightarrow> u \<noteq> 0 \<Longrightarrow>
     parameters (uniform_composite v u) =
       map (\<lambda>(name, w). (name, \<lparr> pvalue = v, puncertainty = Some u \<rparr>)) IBR_WEIGHTS"
  by (simp add: uniform_composite_def new_composite_def IBR_WEIGHTS_def set_parameter_def)

lemma uniform_valid:
  "validate_parameters env (uniform_composite (1/2) 10) = (True, [])"
  by (simp add: validate_parameters_def Let_def missing_params_def extra_params_def
        range_warnings_def extreme_warnings_def uniform_composite_parameters IBR_WEIGHTS_def)

lemma uniform_used: "used_params (uniform_composite (1/2) 10) = set (map fst IBR_WEIGHTS)"
  by (simp add: used_params_def uniform_composite_parameters IBR_WEIGHTS_def)

lemma uniform_uncertainty:
  "p \<in> set (map fst IBR_WEIGHTS) \<Longrightarrow> stored_uncertainty (uniform_composite (1/2) 10) p = 10"
  by (auto simp: stored_uncertainty_def uniform_composite_parameters IBR_WEIGHTS_def
        entry_uncertainty_def)

lemma uniform_sum:
  "(\<Sum>p\<in>used_params (uniform_composite (1/2) 10).
       (weight_of p)\<^sup>2 * (stored_uncertainty (uniform_composite (1/2) 10) p)\<^sup>2) = 312 / 25"
proof -
  have "(\<Sum>p\<in>used_params (uniform_composite (1/2) 10).
       (weight_of p)\<^sup>2 * (stored_uncertainty (uniform_composite (1/2) 10) p)\<^sup>2)
     = (\<Sum>p\<in>set (map fst IBR_WEIGHTS). (weight_of p)\<^sup>2 * 10\<^sup>2)"
    unfolding uniform_used by (intro sum.cong refl) (simp add: uniform_uncertainty)
  also have "\<dots> = (\<Sum>p\<leftarrow>map fst IBR_WEIGHTS. (weight_of p)\<^sup>2 * 10\<^sup>2)"
    by (rule sum.distinct_set_conv_list) (simp add: IBR_WEIGHTS_def)
  also have "\<dots> = 312 / 25"
    by (simp add: IBR_WEIGHTS_def weight_of_def lookup_w_def power2_eq_square)
  finally show ?thesis .
qed

lemma negative_confidence:
  "\<exists>self r. compute env True self = Inr r \<and> r_confidence r < 0"
proof -
  let ?self = "uniform_composite (1/2) 10"
  let ?r = "compute_body env True [] ?self"
  have "compute env True ?self = Inr ?r"
    by (simp add: compute_def uniform_valid)
  moreover have "r_uncertainty ?r = sqrt (312 / 25)"
    by (simp add: body_uncertainty uniform_sum)
  then have "r_confidence ?r < 0"
    by (simp add: body_confidence)
  ultimately show ?thesis by blast
qed

text \<open>
  Claim C6. Whenever \<open>compute\<close> returns a result, its uncertainty is the square root of
  the sum, over the parameters that are both stored and in the weight table, of weight
  squared times the parameter's uncertainty squared, and its confidence is one minus that
  uncertainty, with no clamping: with all nine parameters stored at uncertainty 10,
  \<open>compute(validate=True)\<close> returns a negative confidence.
\<close>

theorem C6_uncertainty_confidence:
  "(compute env validate self = Inr r \<longrightarrow>
      r_uncertainty r =
        sqrt (\<Sum>p\<in>used_params self. (weight_of p)\<^sup>2 * (stored_uncertainty self p)\<^sup>2) \<and>
      r_confidence r = 1 - r_uncertainty r) \<and>
   (\<exists>self' r'. compute env True self' = Inr r' \<and> r_confidence r' < 0)"
  using compute_cases[of env validate self r] negative_confidence[of env]
  by (auto simp: body_uncertainty body_confidence)

theorem C6_uncertainty_confidence_witness:
  "compute demo_env False two_perfect = Inr (compute_body demo_env False [] two_perfect) \<and>
   r_uncertainty (compute_body demo_env False [] two_perfect) =
     sqrt (\<Sum>p\<in>used_params two_perfect.
             (weight_of p)\<^sup>2 * (stored_uncertainty two_perfect p)\<^sup>2) \<and>
   r_confidence (compute_body demo_env False [] two_perfect) =
     1 - r_uncertainty (compute_body demo_env False [] two_perfect)"
proof -
  have h: "compute demo_env False two_perfect = Inr (compute_body demo_env False [] two_perfect)"
    by (simp add: compute_def)
  from C6_uncertainty_confidence[of demo_env False two_perfect
         "compute_body demo_env False [] two_perfect"] h
  show ?thesis by blast
qed

lemma validate_parameters_biome:
  "validate_parameters env (self\<lparr>biome := b\<rparr>) = validate_parameters env self"
  by (simp add: validate_parameters_def missing_params_def extra_params_def)

lemma weighted_items_biome: "weighted_items (self\<lparr>biome := b\<rparr>) = weighted_items self"
  by (simp add: weighted_items_def)

lemma compute_body_biome:
  "compute_body env validate ws (self\<lparr>biome := b\<rparr>) =
     (compute_body env validate ws self)\<lparr>r_biome := b\<rparr>"
proof -
  obtain s c where loop:
    "score_loop (map (\<lambda>(name, data). (name, pvalue data)) (weighted_items self))
       IBR_WEIGHTS (0, []) = (s, c)"
    by (cases "score_loop (map (\<lambda>(name, data). (name, pvalue data)) (weighted_items self))
       IBR_WEIGHTS (0, [])") auto
  show ?thesis
    unfolding compute_body_def weighted_items_biome Let_def loop
    by (simp add: apply_biome_correction_def)
qed

text \<open>
  Claim C10. \<open>_apply_biome_correction\<close> returns its score unchanged, and \<open>compute\<close> on
  an object with any biome returns what it returns with no biome (the same error, or the
  same result: score, classification, contributions, uncertainty, confidence, warnings)
  except for the result's \<open>biome\<close> field.
\<close>

theorem C10_biome_correction_identity:
  "apply_biome_correction s params = s \<and>
   compute env validate (self\<lparr>biome := b\<rparr>) =
     map_sum id (\<lambda>r. r\<lparr>r_biome := b\<rparr>) (compute env validate (self\<lparr>biome := None\<rparr>))"
proof
  show "apply_biome_correction s params = s"
    by (simp add: apply_biome_correction_def)
  have any: "\<And>c. compute env validate (self\<lparr>biome := c\<rparr>) =
     map_sum id (\<lambda>r. r\<lparr>r_biome := c\<rparr>) (compute env validate self)"
    unfolding compute_def validate_parameters_biome compute_body_biome
    by (simp split: prod.splits)
  show "compute env validate (self\<lparr>biome := b\<rparr>) =
     map_sum id (\<lambda>r. r\<lparr>r_biome := b\<rparr>) (compute env validate (self\<lparr>biome := None\<rparr>))"
    unfolding any[of b] any[of None]
    by (cases "compute env validate self") simp_all
qed

subsection \<open>When validation fails\<close>

lemma starts_with_iff: "starts_with n h \<longleftrightarrow> (\<exists>s. h = n @ s)"
  by (induction n h rule: starts_with.induct) auto

lemma str_contains_iff: "str_contains n h \<longleftrightarrow> (\<exists>p s. h = p @ n @ s)"
proof (induction h)
  case Nil
  then show ?case by auto
next
  case (Cons x h)
  show ?case
  proof
    assume "str_contains n (x # h)"
    then consider "starts_with n (x # h)" | "str_contains n h" by auto
    then show "\<exists>p s. x # h = p @ n @ s"
    proof cases
      case 1
      then obtain s where "x # h = n @ s" by (auto simp: starts_with_iff)
      then have "x # h = [] @ n @ s" by simp
      then show ?thesis by blast
    next
      case 2
      with Cons.IH obtain p s where "h = p @ n @ s" by auto
      then have "x # h = (x # p) @ n @ s" by simp
      then show ?thesis by blast
    qed
  next
    assume "\<exists>p s. x # h = p @ n @ s"
    then obtain p s where ps: "x # h = p @ n @ s" by auto
    show "str_contains n (x # h)"
    proof (cases p)
      case Nil
      with ps have "starts_with n (x # h)" by (auto simp: starts_with_iff)
      then show ?thesis by simp
    next
      case (Cons y p')
      with ps have "h = p' @ n @ s" by simp
      with Cons.IH have "str_contains n h" by blast
      then show ?thesis by simp
    qed
  qed
qed

lemma str_contains_sep:
  assumes "c \<notin> set n"
  shows "str_contains n (a @ c # b) \<longleftrightarrow> str_contains n a \<or> str_contains n b"
proof
  assume "str_contains n (a @ c # b)"
  then obtain p s where eq: "a @ c # b = p @ n @ s" by (auto simp: str_contains_iff)
  then consider us where "a = p @ us" "us @ c # b = n @ s"
    | us where "a @ us = p" "c # b = us @ n @ s"
    by (auto simp: append_eq_append_conv2)
  then show "str_contains n a \<or> str_contains n b"
  proof cases
    case 1
    from 1(2) consider vs where "us = n @ vs" | vs where "us @ vs = n" "c # b = vs @ s"
      by (auto simp: append_eq_append_conv2)
    then show ?thesis
    proof cases
      case 1
      with \<open>a = p @ us\<close> have "a = p @ n @ vs" by simp
      then show ?thesis by (auto simp: str_contains_iff)
    next
      case 2
      show ?thesis
      proof (cases vs)
        case Nil
        with 2 \<open>a = p @ us\<close> have "a = p @ n @ []" by simp
        then show ?thesis unfolding str_contains_iff by blast
      next
        case (Cons v vs')
        with 2 have "c \<in> set n" by auto
        with assms show ?thesis by simp
      qed
    qed
  next
    case 2
    show ?thesis
    proof (cases us)
      case Nil
      with 2 have "c # b = n @ s" by simp
      then have "n = [] \<or> c \<in> set n" by (cases n) auto
      with assms have "n = []" by simp
      then have "a = a @ n @ []" by simp
      then show ?thesis unfolding str_contains_iff by blast
    next
      case (Cons u us')
      with 2 have "b = us' @ n @ s" by simp
      then show ?thesis unfolding str_contains_iff by blast
    qed
  qed
next
  assume "str_contains n a \<or> str_contains n b"
  then show "str_contains n (a @ c # b)"
  proof
    assume "str_contains n a"
    then obtain p s where "a = p @ n @ s" by (auto simp: str_contains_iff)
    then have "a @ c # b = p @ n @ (s @ c # b)" by simp
    then show ?thesis unfolding str_contains_iff by blast
  next
    assume "str_contains n b"
    then obtain p s where "b = p @ n @ s" by (auto simp: str_contains_iff)
    then have "a @ c # b = (a @ c # p) @ n @ s" by simp
    then show ?thesis unfolding str_contains_iff by blast
  qed
qed

lemma str_contains_no_first:
  "x \<notin> set h \<Longrightarrow> \<not> str_contains (x # n) h"
  by (auto simp: str_contains_iff)

lemma str_contains_join:
  assumes "CHR '','' \<notin> set n" "CHR '' '' \<notin> set n" "n \<noteq> []"
  shows "str_contains n (join_with '', '' names) \<longleftrightarrow> (\<exists>x\<in>set names. str_contains n x)"
proof (induction names)
  case Nil
  from assms(3) show ?case by simp
next
  case (Cons x xs)
  show ?case
  proof (cases xs)
    case Nil
    then show ?thesis by simp
  next
    case (Cons y ys)
    let ?j = "join_with '', '' xs"
    have e: "join_with '', '' (x # xs) = x @ CHR '','' # (CHR '' '' # ?j)"
      using Cons by simp
    have a: "str_contains n (x @ CHR '','' # (CHR '' '' # ?j)) \<longleftrightarrow>
        str_contains n x \<or> str_contains n (CHR '' '' # ?j)"
      by (rule str_contains_sep[OF assms(1)])
    have b: "str_contains n ([] @ CHR '' '' # ?j) \<longleftrightarrow>
        str_contains n [] \<or> str_contains n ?j"
      by (rule str_contains_sep[OF assms(2)])
    have "str_contains n (join_with '', '' (x # xs)) \<longleftrightarrow>
        str_contains n x \<or> str_contains n [] \<or> str_contains n ?j"
      unfolding e a using b by simp
    with Cons.IH assms(3) show ?thesis by simp
  qed
qed


lemma mentions_Missing_cases:
  "mentions_Missing env (MissingParameters names)"
  "mentions_Missing env (ExtraParameters names) \<longleftrightarrow> (\<exists>x\<in>set names. str_contains ''Missing'' x)"
  "float_texts_ok env \<Longrightarrow>
     mentions_Missing env (OutOfRange name v) \<longleftrightarrow> str_contains ''Missing'' name"
  "float_texts_ok env \<Longrightarrow>
     mentions_Missing env (CriticalLow name v) \<longleftrightarrow> str_contains ''Missing'' name"
  "float_texts_ok env \<Longrightarrow>
     mentions_Missing env (UnusuallyHigh name v) \<longleftrightarrow> str_contains ''Missing'' name"
proof -
  show "mentions_Missing env (MissingParameters names)"
    by (simp add: mentions_Missing_def render_def)
  show "mentions_Missing env (ExtraParameters names) \<longleftrightarrow> (\<exists>x\<in>set names. str_contains ''Missing'' x)"
    by (simp add: mentions_Missing_def render_def str_contains_join)
  assume ok: "float_texts_ok env"
  then have nf: "\<And>v. \<not> str_contains ''Missing'' (float_str env v)"
    "\<And>v. \<not> str_contains ''Missing'' (float_3f env v)"
    by (simp_all add: float_texts_ok_def str_contains_no_first)
  have sp: "\<And>a b. str_contains ''Missing'' (a @ CHR '' '' # b) \<longleftrightarrow>
              str_contains ''Missing'' a \<or> str_contains ''Missing'' b"
    and co: "\<And>a b. str_contains ''Missing'' (a @ CHR '':'' # b) \<longleftrightarrow>
              str_contains ''Missing'' a \<or> str_contains ''Missing'' b"
    by (rule str_contains_sep, simp)+
  show "mentions_Missing env (OutOfRange name v) \<longleftrightarrow> str_contains ''Missing'' name"
    by (simp add: mentions_Missing_def render_def sp nf)
  show "mentions_Missing env (CriticalLow name v) \<longleftrightarrow> str_contains ''Missing'' name"
    by (simp add: mentions_Missing_def render_def sp co nf)
  show "mentions_Missing env (UnusuallyHigh name v) \<longleftrightarrow> str_contains ''Missing'' name"
    by (simp add: mentions_Missing_def render_def sp co nf)
qed

lemma required_names_plain:
  "name \<in> set (map fst IBR_WEIGHTS) \<Longrightarrow> \<not> str_contains ''Missing'' name"
  by (auto simp: IBR_WEIGHTS_def)

lemma range_warnings_shape:
  "w \<in> set (range_warnings items) \<Longrightarrow> \<exists>name v. w = OutOfRange name v \<and> name \<in> fst ` set items"
  by (force simp: range_warnings_def split: if_splits)

lemma extreme_warnings_shape:
  "w \<in> set (extreme_warnings items) \<Longrightarrow>
     \<exists>name v. (w = CriticalLow name v \<or> w = UnusuallyHigh name v) \<and> name \<in> fst ` set items"
  by (force simp: extreme_warnings_def split: if_splits)

lemma validate_parameters_fst:
  "fst (validate_parameters env self) \<longleftrightarrow>
     (\<forall>w\<in>set (snd (validate_parameters env self)). \<not> mentions_Missing env w)"
  by (auto simp: validate_parameters_def Let_def mentions_Missing_def filter_empty_conv)

lemma validate_parameters_snd:
  "set (snd (validate_parameters env self)) =
     (if missing_params self \<noteq> [] then {MissingParameters (missing_params self)} else {}) \<union>
     (if extra_params self \<noteq> [] then {ExtraParameters (extra_params self)} else {}) \<union>
     set (range_warnings (parameters self)) \<union> set (extreme_warnings (parameters self))"
  by (simp add: validate_parameters_def Let_def)

lemma stored_name_cases:
  "name \<in> fst ` set (parameters self) \<Longrightarrow>
     name \<in> set (map fst IBR_WEIGHTS) \<or> name \<in> set (extra_params self)"
  by (auto simp: extra_params_def)

lemma validate_ok_iff:
  assumes "float_texts_ok env"
  shows "fst (validate_parameters env self) \<longleftrightarrow>
           missing_params self = [] \<and>
           (\<forall>x\<in>set (extra_params self). \<not> str_contains ''Missing'' x)"
proof
  assume v: "fst (validate_parameters env self)"
  then have none: "\<And>w. w \<in> set (snd (validate_parameters env self)) \<Longrightarrow> \<not> mentions_Missing env w"
    by (simp add: validate_parameters_fst)
  have "missing_params self = []"
  proof (rule ccontr)
    assume "missing_params self \<noteq> []"
    then have "MissingParameters (missing_params self) \<in> set (snd (validate_parameters env self))"
      by (simp add: validate_parameters_snd)
    from none[OF this] show False by (simp add: mentions_Missing_cases)
  qed
  moreover have "\<forall>x\<in>set (extra_params self). \<not> str_contains ''Missing'' x"
  proof
    fix x assume x: "x \<in> set (extra_params self)"
    then have "extra_params self \<noteq> []" by auto
    then have "ExtraParameters (extra_params self) \<in> set (snd (validate_parameters env self))"
      by (simp add: validate_parameters_snd)
    from none[OF this] x show "\<not> str_contains ''Missing'' x"
      by (auto simp: mentions_Missing_cases)
  qed
  ultimately show "missing_params self = [] \<and>
           (\<forall>x\<in>set (extra_params self). \<not> str_contains ''Missing'' x)" by simp
next
  assume h: "missing_params self = [] \<and>
           (\<forall>x\<in>set (extra_params self). \<not> str_contains ''Missing'' x)"
  have plain: "\<not> str_contains ''Missing'' name" if "name \<in> fst ` set (parameters self)" for name
    using stored_name_cases[OF that] h required_names_plain by blast
  show "fst (validate_parameters env self)"
    unfolding validate_parameters_fst
  proof
    fix w assume "w \<in> set (snd (validate_parameters env self))"
    then consider "w = ExtraParameters (extra_params self)"
      | "w \<in> set (range_warnings (parameters self))"
      | "w \<in> set (extreme_warnings (parameters self))"
      using h by (auto simp: validate_parameters_snd split: if_splits)
    then show "\<not> mentions_Missing env w"
    proof cases
      case 1
      with h show ?thesis by (simp add: mentions_Missing_cases)
    next
      case 2
      from range_warnings_shape[OF this] obtain name v
        where "w = OutOfRange name v" "name \<in> fst ` set (parameters self)" by blast
      with plain[of name] assms show ?thesis
        by (simp add: mentions_Missing_cases)
    next
      case 3
      from extreme_warnings_shape[OF this] obtain name v
        where "w = CriticalLow name v \<or> w = UnusuallyHigh name v"
          "name \<in> fst ` set (parameters self)" by blast
      with plain[of name] assms show ?thesis
        by (auto simp: mentions_Missing_cases)
    qed
  qed
qed

lemma compute_raises_iff:
  "compute env validate self = Inl e \<longleftrightarrow>
     validate \<and> \<not> fst (validate_parameters env self) \<and>
     e = ValueError_validation_failed (snd (validate_parameters env self))"
  by (auto simp: compute_def split: prod.splits)

lemma compute_returns:
  "compute env validate self = Inr r \<longleftrightarrow>
     (if validate
      then fst (validate_parameters env self) \<and>
           r = compute_body env validate (snd (validate_parameters env self)) self
      else r = compute_body env validate [] self)"
  by (auto simp: compute_def split: prod.splits)

lemma missing_params_set:
  "set (missing_params self) = set (map fst IBR_WEIGHTS) - set (map fst (parameters self))"
  by (auto simp: missing_params_def)

lemma missing_fails_validation:
  assumes "missing_params self \<noteq> []"
  shows "\<not> fst (validate_parameters env self)"
    and "hd (snd (validate_parameters env self)) = MissingParameters (missing_params self)"
    and "compute env True self =
           Inl (ValueError_validation_failed (snd (validate_parameters env self)))"
proof -
  from assms have "MissingParameters (missing_params self) \<in> set (snd (validate_parameters env self))"
    by (simp add: validate_parameters_snd)
  then show nv: "\<not> fst (validate_parameters env self)"
    unfolding validate_parameters_fst using mentions_Missing_cases(1) by blast
  from assms show "hd (snd (validate_parameters env self)) = MissingParameters (missing_params self)"
    by (simp add: validate_parameters_def Let_def)
  from nv show "compute env True self =
           Inl (ValueError_validation_failed (snd (validate_parameters env self)))"
    by (simp add: compute_raises_iff)
qed

lemma body_score:
  "r_score (compute_body env validate ws self) =
     (\<Sum>p\<in>used_params self. stored_value self p * weight_of p)"
proof -
  let ?K = "set (map fst IBR_WEIGHTS)"
  let ?pv = "map (\<lambda>(name, data). (name, pvalue data)) (weighted_items self)"
  have mo: "\<And>p. map_of ?pv p =
      (if p \<in> ?K then map_option pvalue (map_of (parameters self) p) else None)"
    unfolding weighted_items_def by (rule map_of_weighted)
  have "dom (map_of ?pv) = {p. p \<in> ?K \<and> map_of (parameters self) p \<noteq> None}"
    unfolding dom_def mo by auto
  then have dom_pv: "dom (map_of ?pv) = used_params self"
    unfolding used_params_def by (auto simp: map_of_eq_None_iff)
  have val: "\<And>p. p \<in> dom (map_of ?pv) \<Longrightarrow>
      (case map_of ?pv p of None \<Rightarrow> 0 | Some v \<Rightarrow> v) = stored_value self p"
    by (auto simp: mo stored_value_def split: if_splits option.splits)
  obtain s c where loop: "score_loop ?pv IBR_WEIGHTS (0, []) = (s, c)"
    by (cases "score_loop ?pv IBR_WEIGHTS (0, [])") auto
  from score_loop_sum[OF loop]
  have "s = (\<Sum>(p, w)\<leftarrow>IBR_WEIGHTS. if p \<in> dom (map_of ?pv)
          then stored_value self p * w else 0)"
    by (simp add: val cong: if_cong)
  also have "\<dots> = (\<Sum>p\<in>dom (map_of ?pv) \<inter> ?K. stored_value self p * weight_of p)"
    using sum_list_keys[of IBR_WEIGHTS "dom (map_of ?pv)" "\<lambda>p w. stored_value self p * w"]
    by (simp add: weight_of_def IBR_WEIGHTS_def)
  also have "dom (map_of ?pv) \<inter> ?K = used_params self"
    unfolding dom_pv by (auto simp: used_params_def)
  finally show ?thesis
    using loop by (simp add: compute_body_def Let_def apply_biome_correction_def)
qed

lemma body_classification:
  "r_classification (compute_body env validate ws self) =
     classify_ibr env (r_score (compute_body env validate ws self))"
  by (simp add: compute_body_def Let_def split: prod.splits)

lemma full_weight:
  assumes "missing_params self = []"
  shows "used_params self = set (map fst IBR_WEIGHTS)"
    and "(\<Sum>p\<in>used_params self. weight_of p) = 1"
proof -
  from assms show u: "used_params self = set (map fst IBR_WEIGHTS)"
    by (auto simp: used_params_def missing_params_def filter_empty_conv)
  have "(\<Sum>p\<in>set (map fst IBR_WEIGHTS). weight_of p) = (\<Sum>p\<leftarrow>map fst IBR_WEIGHTS. weight_of p)"
    by (rule sum.distinct_set_conv_list) (simp add: IBR_WEIGHTS_def)
  also have "\<dots> = 1"
    by (simp add: IBR_WEIGHTS_def weight_of_def lookup_w_def)
  finally show "(\<Sum>p\<in>used_params self. weight_of p) = 1" unfolding u .
qed

lemma validated_score_is_normalized:
  assumes "compute env True self = Inr r"
  shows "r_classification r = classify_ibr env (r_score r)"
    and "r_score r = (\<Sum>p\<in>used_params self. stored_value self p * weight_of p)
                       / (\<Sum>p\<in>used_params self. weight_of p)"
proof -
  from assms have v: "fst (validate_parameters env self)"
    and r: "r = compute_body env True (snd (validate_parameters env self)) self"
    by (simp_all add: compute_returns)
  have "missing_params self = []"
    using v missing_fails_validation(1)[of self env] by blast
  from full_weight(2)[OF this] show "r_score r =
      (\<Sum>p\<in>used_params self. stored_value self p * weight_of p)
        / (\<Sum>p\<in>used_params self. weight_of p)"
    unfolding r by (simp add: body_score)
  show "r_classification r = classify_ibr env (r_score r)"
    unfolding r by (rule body_classification)
qed

lemma out_of_range_stored_parameters:
  "parameters out_of_range_stored =
     (''VCA'', \<lparr> pvalue = 3 / 2, puncertainty = Some 0.05 \<rparr>) #
     map (\<lambda>(name, w). (name, \<lparr> pvalue = 1 / 2, puncertainty = Some 10 \<rparr>)) (tl IBR_WEIGHTS)"
  by (simp add: out_of_range_stored_def set_parameter_result_def uniform_composite_parameters
        IBR_WEIGHTS_def)

lemma demo_env_ok: "float_texts_ok demo_env"
  by (simp add: float_texts_ok_def demo_env_def)

subsection \<open>Evaluations and the setter\<close>

lemma two_perfect_parameters:
  "parameters two_perfect =
     [(''VCA'', \<lparr> pvalue = 1, puncertainty = Some 0.05 \<rparr>),
      (''MDI'', \<lparr> pvalue = 1, puncertainty = Some 0.05 \<rparr>)]"
  by (simp add: two_perfect_def set_parameter_def new_composite_def)

text \<open>
  Claim C1, evaluated on \<open>IBRComposite.compute\<close>. With only VCA = 1 and MDI = 1 stored
  and \<open>validate=False\<close>, the result is classified by the raw weighted sum 0.35:
  COLLAPSED, with the "CRITICAL: Ecosystem in COLLAPSED state" warning. The normalized
  score of the same mapping is 1, which \<open>compute_ibr\<close> classifies PRISTINE.
\<close>

theorem C1_composite_classifies_raw_score:
  "compute (env\<lparr>classify_ibr := classify_ibr_spec\<rparr>) False two_perfect =
     Inr \<lparr> r_score = 0.35, r_classification = COLLAPSED,
           r_contributions = [(''VCA'', 0.20), (''MDI'', 0.15)],
           r_uncertainty = sqrt (0.20\<^sup>2 * 0.05\<^sup>2 + 0.15\<^sup>2 * 0.05\<^sup>2), 
           r_confidence = 1 - sqrt (0.20\<^sup>2 * 0.05\<^sup>2 + 0.15\<^sup>2 * 0.05\<^sup>2),
           r_plot_id = None, r_biome = None,
           r_warnings = [CollapsedState],
           r_metadata = \<lparr> n_parameters = 2, validation_passed = False,
                          method_name = ''weighted_sum'' \<rparr> \<rparr> \<and>
   normalized_score (compute_ibr [''VCA'' \<mapsto> 1, ''MDI'' \<mapsto> 1]) = 1 \<and>
   classification (compute_ibr [''VCA'' \<mapsto> 1, ''MDI'' \<mapsto> 1]) = PRISTINE"
proof (intro conjI)
  have p: "plot_id two_perfect = None" "biome two_perfect = None"
    by (simp_all add: two_perfect_def set_parameter_def new_composite_def)
  show "compute (env\<lparr>classify_ibr := classify_ibr_spec\<rparr>) False two_perfect =
     Inr \<lparr> r_score = 0.35, r_classification = COLLAPSED,
           r_contributions = [(''VCA'', 0.20), (''MDI'', 0.15)],
           r_uncertainty = sqrt (0.20\<^sup>2 * 0.05\<^sup>2 + 0.15\<^sup>2 * 0.05\<^sup>2), 
           r_confidence = 1 - sqrt (0.20\<^sup>2 * 0.05\<^sup>2 + 0.15\<^sup>2 * 0.05\<^sup>2),
           r_plot_id = None, r_biome = None,
           r_warnings = [CollapsedState],
           r_metadata = \<lparr> n_parameters = 2, validation_passed = False,
                          method_name = ''weighted_sum'' \<rparr> \<rparr>"
    by (simp add: compute_def compute_body_def weighted_items_def two_perfect_parameters p
          IBR_WEIGHTS_def entry_uncertainty_def biome_set_def classify_ibr_spec_def
          classify_score_def score_warnings_def Let_def)
  show "normalized_score (compute_ibr [''VCA'' \<mapsto> 1, ''MDI'' \<mapsto> 1]) = 1"
    by (simp add: compute_ibr_def IBR_WEIGHTS_def Let_def)
  show "classification (compute_ibr [''VCA'' \<mapsto> 1, ''MDI'' \<mapsto> 1]) = PRISTINE"
    by (simp add: compute_ibr_def IBR_WEIGHTS_def Let_def classify_score_def)
qed

text \<open>
  Claim C2, evaluated on \<open>IBRComposite.compute\<close>. With only VCA = 1 and MDI = 1 stored
  and \<open>validate=False\<close>, the result's score is the raw sum 0.20 + 0.15 = 0.35: nothing
  divides it by the weights used, and the result has no other score field. The weighted
  average over the two present parameters is 1, which is the \<open>normalized_score\<close> that
  \<open>compute_ibr\<close> returns for the same mapping.
\<close>

theorem C2_composite_score_not_normalized:
  "map_sum id r_score (compute env False two_perfect) = Inr 0.35 \<and>
   used_params two_perfect = {''VCA'', ''MDI''} \<and>
   (\<Sum>p\<in>used_params two_perfect. stored_value two_perfect p * weight_of p)
     / (\<Sum>p\<in>used_params two_perfect. weight_of p) = 1 \<and>
   normalized_score (compute_ibr [''VCA'' \<mapsto> 1, ''MDI'' \<mapsto> 1]) = 1"
proof -
  have u: "used_params two_perfect = {''VCA'', ''MDI''}"
    by (auto simp: used_params_def two_perfect_parameters IBR_WEIGHTS_def)
  have v: "stored_value two_perfect ''VCA'' = 1" "stored_value two_perfect ''MDI'' = 1"
    by (simp_all add: stored_value_def two_perfect_parameters)
  have w: "weight_of ''VCA'' = 0.20" "weight_of ''MDI'' = 0.15"
    by (simp_all add: weight_of_def lookup_w_def IBR_WEIGHTS_def)
  have raw: "(\<Sum>p\<in>used_params two_perfect. stored_value two_perfect p * weight_of p) = 0.35"
    unfolding u by (simp add: v w)
  have tot: "(\<Sum>p\<in>used_params two_perfect. weight_of p) = 0.35"
    unfolding u by (simp add: w)
  have "map_sum id r_score (compute env False two_perfect) = Inr 0.35"
    using raw by (simp add: compute_def body_score)
  moreover have "normalized_score (compute_ibr [''VCA'' \<mapsto> 1, ''MDI'' \<mapsto> 1]) = 1"
    by (simp add: compute_ibr_def IBR_WEIGHTS_def Let_def)
  ultimately show ?thesis using u raw tot by simp
qed

lemma nine_and_extra_parameters:
  "parameters nine_and_extra =
     map (\<lambda>(name, w). (name, \<lparr> pvalue = 1/2, puncertainty = Some 0.05 \<rparr>)) IBR_WEIGHTS
       @ [(''Missing'', \<lparr> pvalue = 1/2, puncertainty = Some 0.05 \<rparr>)]"
  by (simp add: nine_and_extra_def set_parameter_def new_composite_def IBR_WEIGHTS_def)

text \<open>
  Claim C5, evaluated on an object that stores all nine required parameters at 0.5 and
  one extra parameter named \<open>Missing\<close>: no required parameter is missing, yet
  \<open>validate_parameters\<close> returns \<open>is_valid = False\<close> and \<open>compute(validate=True)\<close> raises,
  because the text of the extra-parameter warning contains the word the validity test
  searches for.
\<close>

theorem C5_extra_name_fails_validation:
  "missing_params nine_and_extra = [] \<and>
   validate_parameters env nine_and_extra = (False, [ExtraParameters [''Missing'']]) \<and>
   compute env True nine_and_extra =
     Inl (ValueError_validation_failed [ExtraParameters [''Missing'']])"
proof -
  have m: "missing_params nine_and_extra = []"
    by (simp add: missing_params_def nine_and_extra_parameters IBR_WEIGHTS_def)
  have e: "extra_params nine_and_extra = [''Missing'']"
    by (simp add: extra_params_def nine_and_extra_parameters IBR_WEIGHTS_def)
  have r: "range_warnings (parameters nine_and_extra) = []"
    by (simp add: range_warnings_def nine_and_extra_parameters IBR_WEIGHTS_def)
  have x: "extreme_warnings (parameters nine_and_extra) = []"
    by (simp add: extreme_warnings_def nine_and_extra_parameters IBR_WEIGHTS_def)
  have v: "validate_parameters env nine_and_extra = (False, [ExtraParameters [''Missing'']])"
    by (simp add: validate_parameters_def m e r x render_def)
  show ?thesis using m v by (simp add: compute_def)
qed

text \<open>
  Claim C9. \<open>set_parameter\<close> raises exactly when the value is below 0 or above 1, and
  then leaves the object as it was; otherwise it stores the value. A stored value outside
  [0,1] makes \<open>validate_parameters\<close>, which has no raising branch, return an out-of-range
  warning for it.
\<close>

theorem C9_set_parameter_strict:
  "(isl (fst (set_parameter name v unc self)) \<longleftrightarrow> v < 0 \<or> 1 < v) \<and>
   (v < 0 \<or> 1 < v \<longrightarrow>
      set_parameter name v unc self = (Inl (ValueError_not_in_unit_interval name v), self)) \<and>
   (0 \<le> v \<and> v \<le> 1 \<longrightarrow>
      fst (set_parameter name v unc self) = Inr () \<and>
      map_option pvalue (map_of (parameters (snd (set_parameter name v unc self))) name) = Some v) \<and>
   ((name', data) \<in> set (parameters self') \<and> (pvalue data < 0 \<or> 1 < pvalue data) \<longrightarrow>
      OutOfRange name' (pvalue data) \<in> set (snd (validate_parameters env self'))) \<and>
   (float_texts_ok env \<and> missing_params self' = [] \<and>
    (\<forall>x\<in>set (extra_params self'). \<not> str_contains ''Missing'' x) \<longrightarrow>
      compute env True self' =
        Inr (compute_body env True (snd (validate_parameters env self')) self'))"
proof (intro conjI impI)
  show "isl (fst (set_parameter name v unc self)) \<longleftrightarrow> v < 0 \<or> 1 < v"
    by (auto simp: set_parameter_def)
  show "set_parameter name v unc self = (Inl (ValueError_not_in_unit_interval name v), self)"
    if "v < 0 \<or> 1 < v"
    using that by (auto simp: set_parameter_def)
  show "fst (set_parameter name v unc self) = Inr ()" if "0 \<le> v \<and> v \<le> 1"
    using that by (simp add: set_parameter_def)
  show "map_option pvalue (map_of (parameters (snd (set_parameter name v unc self))) name) = Some v"
    if "0 \<le> v \<and> v \<le> 1"
    using that by (simp add: set_parameter_def update_conv')
  show "OutOfRange name' (pvalue data) \<in> set (snd (validate_parameters env self'))"
    if "(name', data) \<in> set (parameters self') \<and> (pvalue data < 0 \<or> 1 < pvalue data)"
  proof -
    from that have "OutOfRange name' (pvalue data) \<in> set (range_warnings (parameters self'))"
      by (force simp: range_warnings_def)
    then show ?thesis by (simp add: validate_parameters_def Let_def)
  qed
  show "compute env True self' =
        Inr (compute_body env True (snd (validate_parameters env self')) self')"
    if "float_texts_ok env \<and> missing_params self' = [] \<and>
        (\<forall>x\<in>set (extra_params self'). \<not> str_contains ''Missing'' x)"
  proof -
    from that have "fst (validate_parameters env self')"
      by (simp add: validate_ok_iff)
    then show ?thesis by (simp add: compute_returns)
  qed
qed

theorem C9_set_parameter_strict_witness:
  "((3/2 :: real) < 0 \<or> 1 < (3/2 :: real)) \<and>
   set_parameter ''VCA'' (3/2) None two_perfect =
     (Inl (ValueError_not_in_unit_interval ''VCA'' (3/2)), two_perfect) \<and>
   ((0 :: real) \<le> 1/4 \<and> (1/4 :: real) \<le> 1) \<and>
   fst (set_parameter ''VCA'' (1/4) None two_perfect) = Inr () \<and>
   map_option pvalue
     (map_of (parameters (snd (set_parameter ''VCA'' (1/4) None two_perfect))) ''VCA'') = Some (1/4) \<and>
   (''VCA'', \<lparr> pvalue = 3/2, puncertainty = Some 0.05 \<rparr>) \<in> set (parameters out_of_range_stored) \<and>
   OutOfRange ''VCA'' (3/2) \<in> set (snd (validate_parameters demo_env out_of_range_stored)) \<and>
   float_texts_ok demo_env \<and> missing_params out_of_range_stored = [] \<and>
   extra_params out_of_range_stored = [] \<and>
   compute demo_env True out_of_range_stored =
     Inr (compute_body demo_env True
            (snd (validate_parameters demo_env out_of_range_stored)) out_of_range_stored)"
proof -
  have stored: "(''VCA'', \<lparr> pvalue = 3/2, puncertainty = Some 0.05 \<rparr>)
                  \<in> set (parameters out_of_range_stored)"
    by (simp add: out_of_range_stored_parameters)
  have a: "(3/2 :: real) < 0 \<or> 1 < (3/2 :: real)" by simp
  have b: "(0 :: real) \<le> 1/4 \<and> (1/4 :: real) \<le> 1" by simp
  have m: "missing_params out_of_range_stored = []"
    by (simp add: missing_params_def out_of_range_stored_parameters IBR_WEIGHTS_def)
  have e: "extra_params out_of_range_stored = []"
    by (simp add: extra_params_def out_of_range_stored_parameters IBR_WEIGHTS_def)
  from C9_set_parameter_strict[of "''VCA''" "3/2" None two_perfect "''VCA''"
         "\<lparr> pvalue = 3/2, puncertainty = Some 0.05 \<rparr>" out_of_range_stored demo_env]
       C9_set_parameter_strict[of "''VCA''" "1/4" None two_perfect "''VCA''"
         "\<lparr> pvalue = 3/2, puncertainty = Some 0.05 \<rparr>" out_of_range_stored demo_env]
       stored a b m e demo_env_ok
  show ?thesis by simp
qed

section \<open>Properties of \<open>TippingPointDetector\<close>\<close>

lemma accumulate_warnings_value:
  "fst (accumulate_warnings alpha (tv, pv) (ta, pa) (ts, ps) (tr, pr)) =
     (if tv > 0.2 \<and> pv < alpha then 1 else if tv > 0.1 then 0.5 else 0)
   + (if ta > 0.2 \<and> pa < alpha then 1 else if ta > 0.1 then 0.5 else 0)
   + (if \<bar>ts\<bar> > 0.15 \<and> ps < alpha then 0.5 else 0)
   + (if tr < - 0.15 \<and> pr < alpha then 0.5 else 0)"
  by (simp add: accumulate_warnings_def Let_def)

lemma accumulate_warnings_bounds:
  "0 \<le> fst (accumulate_warnings alpha var ac skew rec)"
  "fst (accumulate_warnings alpha var ac skew rec) \<le> 3"
  by (cases var; cases ac; cases skew; cases rec; simp add: accumulate_warnings_value)+

lemma estimate_ignores_timestamps:
  "estimate_time_to_tipping tau_var tau_ac timeseries timestamps = months_by_trend tau_var tau_ac"
  by (simp add: estimate_time_to_tipping_def months_by_trend_def Let_def)

lemma calculate_confidence_bounds:
  "0 \<le> level \<Longrightarrow> 0 \<le> calculate_confidence level p_var p_ac n"
  "calculate_confidence level p_var p_ac n \<le> 1"
  by (simp_all add: calculate_confidence_def Let_def)

lemma analyse_rolled_fields:
  fixes lib self timeseries timestamps variable_name n_rolling autocorrelations
  defines "r \<equiv> analyse_rolled lib self timeseries timestamps variable_name n_rolling
                   autocorrelations"
  shows "\<exists>m. metrics r = Some m \<and>
           warning_level r = min \<lfloor>spec_accumulated (significance_level self) r m\<rfloor> 3"
    and "critical_slowing_down r \<longleftrightarrow> 2 \<le> warning_level r"
    and "estimated_months r = months_by_trend (variance_trend r) (autocorrelation_trend r)"
    and "0 \<le> warning_level r \<and> warning_level r \<le> 3"
    and "0 \<le> tp_confidence r \<and> tp_confidence r \<le> 1"
    and "\<exists>vn d l a. metadata r = Analysed vn d l a"
proof -
  let ?segments = "rolling_segments self timeseries n_rolling"
  let ?x = "arange n_rolling"
  let ?var = "stats_kendalltau lib ?x (map Some (map (np_var lib) ?segments))"
  let ?ac = "stats_kendalltau lib ?x (map Some autocorrelations)"
  let ?skew = "stats_kendalltau lib ?x (map Some (map (stats_skew lib) ?segments))"
  let ?rec = "stats_kendalltau lib ?x (map (estimate_recovery_rate lib) ?segments)"
  let ?acc = "accumulate_warnings (significance_level self) ?var ?ac ?skew ?rec"
  have level: "warning_level r = min \<lfloor>fst ?acc\<rfloor> 3"
    by (simp add: r_def analyse_rolled_def Let_def)
  have trends: "variance_trend r = fst ?var" "autocorrelation_trend r = fst ?ac"
    "skewness_trend r = fst ?skew" "recovery_rate_trend r = fst ?rec"
    by (simp_all add: r_def analyse_rolled_def Let_def)
  obtain m where m: "metrics r = Some m"
    and ps: "variance_p_value m = snd ?var" "autocorrelation_p_value m = snd ?ac"
      "skewness_p_value m = snd ?skew" "recovery_rate_p_value m = snd ?rec"
    by (simp add: r_def analyse_rolled_def Let_def)
  have "fst ?acc = spec_accumulated (significance_level self) r m"
    using accumulate_warnings_value[of "significance_level self"
            "fst ?var" "snd ?var" "fst ?ac" "snd ?ac" "fst ?skew" "snd ?skew" "fst ?rec" "snd ?rec"]
    by (simp add: spec_accumulated_def trends ps)
  with level m show "\<exists>m. metrics r = Some m \<and>
           warning_level r = min \<lfloor>spec_accumulated (significance_level self) r m\<rfloor> 3"
    by simp
  show "critical_slowing_down r \<longleftrightarrow> 2 \<le> warning_level r"
    by (simp add: r_def analyse_rolled_def Let_def)
  show "estimated_months r = months_by_trend (variance_trend r) (autocorrelation_trend r)"
    by (simp add: r_def analyse_rolled_def Let_def estimate_ignores_timestamps)
  have "0 \<le> \<lfloor>fst ?acc\<rfloor>" "\<lfloor>fst ?acc\<rfloor> \<le> 3"
    using accumulate_warnings_bounds[of "significance_level self" ?var ?ac ?skew ?rec]
    by (simp_all add: floor_le_iff)
  with level show lv: "0 \<le> warning_level r \<and> warning_level r \<le> 3" by simp
  have "tp_confidence r =
          calculate_confidence (warning_level r) (snd ?var) (snd ?ac) (length timeseries)"
    by (simp add: r_def analyse_rolled_def Let_def)
  with lv show "0 \<le> tp_confidence r \<and> tp_confidence r \<le> 1"
    using calculate_confidence_bounds[of "warning_level r"] by simp
  show "\<exists>vn d l a. metadata r = Analysed vn d l a"
    by (simp add: r_def analyse_rolled_def Let_def)
qed

lemma months_by_trend_positive: "0 < months_by_trend tau_var tau_ac"
  by (simp add: months_by_trend_def Let_def)

lemma analyse_cases:
  "analyse lib self ts stamps vn n = Inr r \<Longrightarrow>
     \<exists>acs. r = analyse_rolled lib self ts stamps vn n acs"
  by (auto simp: analyse_def split: sum.splits)

lemma detect_cases:
  assumes "detect sa lib self series timestamps vn = Inr r"
  shows "(\<not> sa \<and> r = fallback_result)
       \<or> (sa \<and> int (length (drop_nan series)) < min_data_points self \<and>
            r = insufficient_result (length (drop_nan series)) (min_data_points self))
       \<or> (sa \<and> \<not> int (length (drop_nan series)) < min_data_points self \<and>
            (\<exists>ts stamps n acs. r = analyse_rolled lib self ts stamps vn n acs))"
proof (cases sa)
  case False
  with assms show ?thesis by (simp add: detect_def)
next
  case True
  with assms consider
      (short) "int (length (drop_nan series)) < min_data_points self"
        "r = insufficient_result (length (drop_nan series)) (min_data_points self)"
    | (full) ts stamps n where "\<not> int (length (drop_nan series)) < min_data_points self"
        "analyse lib self ts stamps vn n = Inr r"
    by (cases timestamps) (auto simp: detect_def Let_def split: if_splits)
  then show ?thesis
  proof cases
    case short
    with True show ?thesis by simp
  next
    case full
    from analyse_cases[OF full(2)] full(1) True show ?thesis by blast
  qed
qed

lemma degraded_fields:
  "warning_level fallback_result = 0" "\<not> critical_slowing_down fallback_result"
  "metrics fallback_result = None" "estimated_months fallback_result = 0"
  "tp_confidence fallback_result = 0"
  "warning_level (insufficient_result n nmin) = 0"
  "\<not> critical_slowing_down (insufficient_result n nmin)"
  "metrics (insufficient_result n nmin) = None"
  "estimated_months (insufficient_result n nmin) = 0"
  "tp_confidence (insufficient_result n nmin) = 0"
  by (simp_all add: fallback_result_def insufficient_result_def)
  
lemma stub_tau [simp]: "stats_kendalltau stub_lib xs ys = (3 / 10, 1 / 100)"
  by (simp add: stub_lib_def)

lemma three_points_rolled:
  "collect (map (rolling_autocorrelation lib 1)
              (rolling_segments small_detector (drop_nan three_points) 2)) = Inr [0, 0]"
  by (simp add: rolling_segments_def small_detector_def three_points_def drop_nan_def
        py_slice_def slice_bound_def rolling_autocorrelation_def upt_rec)

lemma three_points_detect:
  "detect True stub_lib small_detector three_points None ''IBR'' =
     Inr (analyse_rolled stub_lib small_detector (drop_nan three_points) None ''IBR'' 2 [0, 0])"
  "detect True stub_lib small_detector three_points (Some [a, b, c]) ''IBR'' =
     Inr (analyse_rolled stub_lib small_detector (drop_nan three_points) (Some [a, b, c])
            ''IBR'' 2 [0, 0])"
proof -
  have n: "length (drop_nan three_points) = 3" "length three_points = 3"
    "drop_nan three_points \<noteq> []"
    by (simp_all add: three_points_def drop_nan_def)
  have m: "map fst (filter snd (zip [a, b, c]
             (map (\<lambda>v. case v of None \<Rightarrow> False | Some y \<Rightarrow> True) three_points))) = [a, b, c]"
    by (simp add: three_points_def)
  have l: "lag small_detector = 1" "min_data_points small_detector = 2"
    "window small_detector = 1" "\<not> detrend small_detector"
    by (simp_all add: small_detector_def)
  have an: "analyse stub_lib small_detector (drop_nan three_points) stamps ''IBR'' 2 =
      Inr (analyse_rolled stub_lib small_detector (drop_nan three_points) stamps ''IBR'' 2 [0, 0])"
    for stamps
    by (simp add: analyse_def l three_points_rolled)
  show "detect True stub_lib small_detector three_points None ''IBR'' =
     Inr (analyse_rolled stub_lib small_detector (drop_nan three_points) None ''IBR'' 2 [0, 0])"
    by (simp add: detect_def Let_def n l an)
  show "detect True stub_lib small_detector three_points (Some [a, b, c]) ''IBR'' =
     Inr (analyse_rolled stub_lib small_detector (drop_nan three_points) (Some [a, b, c])
            ''IBR'' 2 [0, 0])"
    by (simp add: detect_def Let_def n m l an)
qed

lemma stub_analyse:
  "warning_level (analyse_rolled stub_lib small_detector ts stamps vn n acs) = 2"
  "critical_slowing_down (analyse_rolled stub_lib small_detector ts stamps vn n acs)"
  "estimated_months (analyse_rolled stub_lib small_detector ts stamps vn n acs) = 24"
  "metrics (analyse_rolled stub_lib small_detector ts stamps vn n acs) \<noteq> None"
  "metadata (analyse_rolled stub_lib small_detector ts stamps vn n acs) =
     Analysed vn False 1 (1 / 20)"
  by (simp_all add: analyse_rolled_def Let_def small_detector_def accumulate_warnings_def
        estimate_ignores_timestamps months_by_trend_def)

text \<open>
  Claim C3. In every result of \<open>detect\<close>, \<open>critical_slowing_down\<close> holds exactly when
  \<open>warning_level\<close> is at least 2. A result that carries metrics (the series was long
  enough and SciPy was there) has \<open>warning_level = min(3, floor(a))\<close>, where \<open>a\<close> adds
  1 for a variance tau above 0.2 with p below the significance level, else 0.5 for a tau
  above 0.1; the same for the autocorrelation; 0.5 for a skewness tau above 0.15 in
  absolute value with significant p; and 0.5 for a recovery-rate tau below -0.15 with
  significant p. A degraded result has \<open>warning_level = 0\<close>.
\<close>

theorem C3_warning_level:
  assumes "detect sa lib self series timestamps vn = Inr r"
  shows "(critical_slowing_down r \<longleftrightarrow> 2 \<le> warning_level r) \<and>
         (case metrics r of
            None \<Rightarrow> warning_level r = 0
          | Some m \<Rightarrow>
              warning_level r = min 3 \<lfloor>spec_accumulated (significance_level self) r m\<rfloor>)"
  using detect_cases[OF assms]
proof (elim disjE conjE exE)
  assume "r = fallback_result"
  then show ?thesis by (simp add: degraded_fields)
next
  assume "r = insufficient_result (length (drop_nan series)) (min_data_points self)"
  then show ?thesis by (simp add: degraded_fields)
next
  fix ts stamps n acs
  assume r: "r = analyse_rolled lib self ts stamps vn n acs"
  from analyse_rolled_fields(1)[of lib self ts stamps vn n acs]
       analyse_rolled_fields(2)[of lib self ts stamps vn n acs]
  show ?thesis unfolding r by (auto simp: min.commute)
qed

theorem C3_warning_level_witness:
  "\<exists>r. detect True stub_lib small_detector three_points None ''IBR'' = Inr r \<and>
       metrics r \<noteq> None \<and> warning_level r = 2 \<and> critical_slowing_down r \<and>
       (critical_slowing_down r \<longleftrightarrow> 2 \<le> warning_level r) \<and>
       (case metrics r of
          None \<Rightarrow> warning_level r = 0
        | Some m \<Rightarrow>
            warning_level r = min 3 \<lfloor>spec_accumulated (significance_level small_detector) r m\<rfloor>)"
proof -
  let ?r = "analyse_rolled stub_lib small_detector (drop_nan three_points) None ''IBR'' 2 [0, 0]"
  have d: "detect True stub_lib small_detector three_points None ''IBR'' = Inr ?r"
    by (rule three_points_detect(1))
  have f: "metrics ?r \<noteq> None" "warning_level ?r = 2" "critical_slowing_down ?r"
    by (rule stub_analyse)+
  from C3_warning_level[OF d] d f show ?thesis
    by (intro exI[of _ ?r]) blast
qed

text \<open>
  Claim C4, evaluated. With the Kendall taus at 0.3 the trend strength is 0.3, so the
  months are 24; \<open>detect\<close> reports 24 for annual timestamps (steps of 366 days), for
  daily timestamps and for no timestamps alike, where the claim has 288, 24/30.44 and 24.
  \<open>_estimate_time_to_tipping\<close> computes \<open>months_per_step\<close> and returns without using it.
\<close>

theorem C4_estimated_months_not_scaled:
  "map_sum id estimated_months
     (detect True stub_lib small_detector three_points (Some [0, 366, 732]) ''IBR'') = Inr 24 \<and>
   map_sum id estimated_months
     (detect True stub_lib small_detector three_points (Some [0, 1, 2]) ''IBR'') = Inr 24 \<and>
   map_sum id estimated_months
     (detect True stub_lib small_detector three_points None ''IBR'') = Inr 24 \<and>
   estimate_time_to_tipping (3 / 10) (3 / 10) [0.1, 0.2, 0.3] (Some [0, 366, 732]) = 24 \<and>
   estimate_time_to_tipping tau_var tau_ac timeseries (Some [0, 366, 732]) =
     estimate_time_to_tipping tau_var tau_ac timeseries None"
  by (simp add: three_points_detect stub_analyse estimate_ignores_timestamps months_by_trend_def)

text \<open>
  Claim C7, as stated, fails on timestamps that are not as long as the series: the
  series below has three samples, two of them numbers (fewer than the 50 required), and
  comes with the two timestamps of those numbers; \<open>detect\<close> raises IndexError at line
  108, before the length guard.
\<close>

theorem C7_counterexample:
  "int (length (drop_nan short_series)) < min_data_points default_detector \<and>
   detect True stub_lib default_detector short_series (Some [0, 2]) ''IBR'' =
     Inl IndexError_boolean_index"
  by (simp add: detect_def Let_def short_series_def drop_nan_def default_detector_def)

text \<open>
  Claim C7, amended. For every series whose length without NaNs is below
  \<open>min_data_points\<close>, with timestamps, when given, as long as the series, \<open>detect\<close>
  returns a result with \<open>warning_level = 0\<close>, \<open>critical_slowing_down = False\<close>,
  \<open>confidence = 0\<close>, the four trend statistics 0, and the note that explains the
  insufficient data with both counts.
\<close>

theorem C7_insufficient_data:
  assumes "aligned series timestamps"
    and "int (length (drop_nan series)) < min_data_points self"
  shows "\<exists>r. detect True lib self series timestamps vn = Inr r \<and>
             warning_level r = 0 \<and> \<not> critical_slowing_down r \<and> tp_confidence r = 0 \<and>
             variance_trend r = 0 \<and> autocorrelation_trend r = 0 \<and>
             skewness_trend r = 0 \<and> recovery_rate_trend r = 0 \<and>
             metadata r = Insufficient_data (length (drop_nan series)) (min_data_points self)"
proof -
  from assms have
    "detect True lib self series timestamps vn =
       Inr (insufficient_result (length (drop_nan series)) (min_data_points self))"
    by (cases timestamps) (simp_all add: detect_def Let_def aligned_def)
  then show ?thesis by (simp add: insufficient_result_def)
qed

theorem C7_insufficient_data_witness:
  "aligned short_series (Some [0, 1, 2]) \<and>
   int (length (drop_nan short_series)) < min_data_points default_detector \<and>
   (\<exists>r. detect True stub_lib default_detector short_series (Some [0, 1, 2]) ''IBR'' = Inr r \<and>
        warning_level r = 0 \<and> \<not> critical_slowing_down r \<and> tp_confidence r = 0 \<and>
        metadata r = Insufficient_data 2 50)"
proof -
  have a: "aligned short_series (Some [0, 1, 2])"
    by (simp add: aligned_def short_series_def)
  have b: "int (length (drop_nan short_series)) < min_data_points default_detector"
    by (simp add: short_series_def drop_nan_def default_detector_def)
  have n: "length (drop_nan short_series) = 2" "min_data_points default_detector = 50"
    by (simp_all add: short_series_def drop_nan_def default_detector_def)
  from C7_insufficient_data[OF a b, of stub_lib "''IBR''"] a b n
  show ?thesis by auto
qed

text \<open>
  Claim C8, as stated, fails on \<open>estimated_months\<close>: both degraded results carry 0,
  which is not positive.
\<close>

theorem C8_counterexample:
  "map_sum id estimated_months
     (detect True stub_lib default_detector short_series None ''IBR'') = Inr 0 \<and>
   map_sum id estimated_months
     (detect False stub_lib default_detector short_series None ''IBR'') = Inr 0"
  by (simp add: detect_def Let_def short_series_def drop_nan_def default_detector_def
        fallback_result_def insufficient_result_def)

text \<open>
  Claim C8, amended. Every result of \<open>detect\<close> has \<open>warning_level\<close> in {0,1,2,3} and
  \<open>confidence\<close> in [0,1]; \<open>estimated_months\<close> is 0 in the insufficient-data and the
  SciPy-unavailable results, and a positive integer in every other result.
\<close>

theorem C8_result_ranges:
  assumes "detect sa lib self series timestamps vn = Inr r"
  shows "warning_level r \<in> {0, 1, 2, 3} \<and>
         0 \<le> tp_confidence r \<and> tp_confidence r \<le> 1 \<and>
         (case metadata r of
            Insufficient_data n nmin \<Rightarrow> estimated_months r = 0
          | SciPy_not_available \<Rightarrow> estimated_months r = 0
          | Analysed name d l a \<Rightarrow> 0 < estimated_months r)"
  using detect_cases[OF assms]
proof (elim disjE conjE exE)
  assume "r = fallback_result"
  then show ?thesis by (simp add: fallback_result_def)
next
  assume "r = insufficient_result (length (drop_nan series)) (min_data_points self)"
  then show ?thesis by (simp add: insufficient_result_def)
next
  fix ts stamps n acs
  assume r: "r = analyse_rolled lib self ts stamps vn n acs"
  from analyse_rolled_fields(4)[of lib self ts stamps vn n acs]
  have "warning_level r \<in> {0, 1, 2, 3}" unfolding r by auto
  moreover from analyse_rolled_fields(5)[of lib self ts stamps vn n acs]
  have "0 \<le> tp_confidence r \<and> tp_confidence r \<le> 1" unfolding r .
  moreover from analyse_rolled_fields(6)[of lib self ts stamps vn n acs]
  obtain name d l a where "metadata r = Analysed name d l a" unfolding r by blast
  moreover from analyse_rolled_fields(3)[of lib self ts stamps vn n acs]
  have "0 < estimated_months r"
    unfolding r by (simp add: months_by_trend_positive)
  ultimately show ?thesis by simp
qed

theorem C8_result_ranges_witness:
  "\<exists>r. detect True stub_lib small_detector three_points None ''IBR'' = Inr r \<and>
       metadata r = Analysed ''IBR'' False 1 (1 / 20) \<and>
       warning_level r \<in> {0, 1, 2, 3} \<and> 0 \<le> tp_confidence r \<and> tp_confidence r \<le> 1 \<and>
       0 < estimated_months r"
proof -
  let ?r = "analyse_rolled stub_lib small_detector (drop_nan three_points) None ''IBR'' 2 [0, 0]"
  have d: "detect True stub_lib small_detector three_points None ''IBR'' = Inr ?r"
    by (rule three_points_detect(1))
  have f: "metadata ?r = Analysed ''IBR'' False 1 (1 / 20)"
    by (rule stub_analyse)
  from C8_result_ranges[OF d] d f show ?thesis
    by (intro exI[of _ ?r]) simp
qed

end
